theory Spec2Isabelle
  imports Complex_Main
begin

section \<open>The LED stage editor: data model\<close>

text \<open>
  The editor of \<^verbatim>\<open>main_oop.js\<close> keeps its state in JavaScript objects that alias each
  other: a material is shared by the mesh that carries it, by the \<^verbatim>\<open>LEDScreen\<close> bound to
  it and by the studio manager that disposes it. Objects that are mutated through several
  references live in explicit stores, addressed by references (natural numbers); a field
  holding an object or \<^verbatim>\<open>null\<close> is an \<open>option\<close> of a reference. The numbers that the
  code only stores, copies and compares (brightness, intensities) are real numbers, a number
  that may be \<^verbatim>\<open>undefined\<close> a \<open>real option\<close>. The numbers that it computes with, the optics
  of a camera, are Number values with their arithmetic (\<open>jsnum\<close>). Informational
  \<^verbatim>\<open>console.log\<close> lines are left out; warnings, errors and the listing of available
  materials are kept in \<open>console\<close>.
\<close>

type_synonym ref = nat

text \<open>A three.js material: \<open>emissive\<close> is the colour as a hex number, absent for a material
  class without an emissive channel (\<^verbatim>\<open>MeshBasicMaterial\<close>).\<close>

record std_material =
  mat_name :: string
  mat_map :: "ref option"
  normalMap :: "ref option"
  emissiveMap :: "ref option"
  emissive :: "nat option"
  emissiveIntensity :: "real option"
  needsUpdate :: bool

text \<open>The provenance of a texture, as \<^verbatim>\<open>extractScreenState\<close> reads it.\<close>

record texture =
  isCustomTexture :: bool
  src_is_data_uri :: bool

text \<open>\<^verbatim>\<open>child.material\<close> is absent, one material, or an array of materials.\<close>

datatype mat_slot = NoMaterial | Single ref | Multi "ref list"

record node =
  obj_id :: nat
  obj_name :: string
  isMesh :: bool
  geometry :: "ref option"
  node_material :: mat_slot
  castShadow :: bool
  receiveShadow :: bool
  userData_originalEmissive :: "nat option"
  userData_originalEmissiveIntensity :: "real option"

datatype object3d = Object3D node "object3d list"

text \<open>\<^verbatim>\<open>Object3D.traverse\<close> visits the object itself, then its descendants, depth first.\<close>

fun traverse :: "object3d \<Rightarrow> node list" where
  "traverse (Object3D n cs) = n # concat (map traverse cs)"

fun root :: "object3d \<Rightarrow> node" where
  "root (Object3D n cs) = n"

datatype resource = Geometry ref | Texture ref | Material ref

record studio =
  studio_name :: string
  displayName :: string
  gltfPath :: string
  folderPath :: string

record led_screen =
  mesh :: "object3d option"
  materialName :: string
  material :: "ref option"
  originalBaseColorTexture :: "ref option"
  originalEmissiveTexture :: "ref option"
  originalEmissiveIntensity :: real
  currentTexture :: "ref option"
  brightness :: real
  has_app :: bool

record scene_object =
  so_mesh :: object3d
  so_name :: string
  so_id :: string
  so_isSelected :: bool

text \<open>The Number values that the optics of a camera are computed with: \<^verbatim>\<open>NaN\<close>, the two
  infinities, and the finite values, each given by its sign (\<open>True\<close> for negative) and its
  magnitude, which is not negative, so that \<^verbatim>\<open>-0\<close> is a value of its own: \<open>Fin True 0\<close>. The
  value -50 is \<open>Fin True 50\<close>, which is \<open>num (- 50)\<close>.\<close>

datatype jsnum = NaN | Inf bool | Fin bool real

text \<open>A \<^verbatim>\<open>CinemaCamera\<close>. The proxy mesh and its material are private to the camera, so
  their fields are kept in the record. \<open>fov\<close> is the field of the \<^verbatim>\<open>PerspectiveCamera\<close> that
  the camera owns.\<close>

record cinema_camera =
  cam_name :: string
  cam_id :: string
  cam_isSelected :: bool
  helper_visible :: bool
  mesh_visible :: bool
  mesh_emissive :: nat
  mesh_emissiveIntensity :: real
  focalLength :: jsnum
  sensorSize :: jsnum
  fov :: jsnum

text \<open>A reference to a selectable object; the tag is what \<^verbatim>\<open>instanceof\<close> tests.\<close>

datatype sel_ref = ObjRef ref | CamRef ref

text \<open>The children of the scene root: loaded meshes by the id of their root object, the
  group and the helper of a camera, the transform gizmo and the two lights.\<close>

datatype scene_item =
  MeshRoot nat | CameraGroup ref | CameraHelper ref | Gizmo | SpotLight | AmbientLight

datatype js_error = TypeError | RenderError

datatype completion = Returned | Thrown js_error

text \<open>\<^verbatim>\<open>LEDStageApp\<close> together with the stores of the objects it shares. \<open>sceneObjects\<close> and
  \<open>cinemaCameras\<close> are JavaScript \<^verbatim>\<open>Map\<close>s from id to object, kept in insertion order.
  \<open>globalBrightness\<close> starts as \<open>1.0\<close> and is only ever assigned numbers.\<close>

record app =
  materials :: "ref \<Rightarrow> std_material"
  textures :: "ref \<Rightarrow> texture"
  disposed :: "resource list"
  console :: "string list"
  scene :: "scene_item list"
  ledScreen :: "led_screen option"
  availableStudios :: "studio list"
  currentStudio :: "studio option"
  currentStudioMesh :: "object3d option"
  globalCustomTexture :: "ref option"
  globalCustomEmissiveTexture :: "ref option"
  globalBrightness :: real
  scene_objs :: "ref \<Rightarrow> scene_object"
  next_scene_obj :: ref
  cameras :: "ref \<Rightarrow> cinema_camera"
  next_camera :: ref
  sceneObjects :: "(string \<times> ref) list"
  cinemaCameras :: "(string \<times> ref) list"
  selectedObject :: "sel_ref option"
  pinnedCamera :: "ref option"
  transformControls_visible :: bool
  transformControls_object :: "scene_item option"
  cameraPreviewRenderer :: bool
  isFullscreen :: bool
  cameraCounter :: nat

section \<open>LEDScreen\<close>

text \<open>\<^verbatim>\<open>x || d\<close> on a number: \<^verbatim>\<open>undefined\<close> and \<open>0\<close> are falsy. On a string: the empty
  string is falsy.\<close>

definition num_or :: "real option \<Rightarrow> real \<Rightarrow> real" where
  "num_or x d = (case x of None \<Rightarrow> d | Some v \<Rightarrow> if v = 0 then d else v)"

definition str_or :: "string \<Rightarrow> string \<Rightarrow> string" where
  "str_or s d = (if s = [] then d else s)"

text \<open>\<^verbatim>\<open>Array.isArray(child.material) ? child.material : [child.material]\<close>\<close>

fun slot_materials :: "mat_slot \<Rightarrow> ref list" where
  "slot_materials NoMaterial = []"
| "slot_materials (Single r) = [r]"
| "slot_materials (Multi rs) = rs"

text \<open>The materials a \<^verbatim>\<open>traverse\<close> with the test \<^verbatim>\<open>child.isMesh && child.material\<close> reaches,
  in the order it reaches them.\<close>

definition child_materials :: "node \<Rightarrow> ref list" where
  "child_materials child =
     (if isMesh child \<and> node_material child \<noteq> NoMaterial
      then slot_materials (node_material child) else [])"

definition mesh_materials :: "object3d \<Rightarrow> ref list" where
  "mesh_materials m = concat (map child_materials (traverse m))"

text \<open>The body of the inner \<^verbatim>\<open>forEach\<close> of \<^verbatim>\<open>findTargetMaterial\<close>.\<close>

definition find_step :: "(ref \<Rightarrow> std_material) \<Rightarrow> led_screen \<Rightarrow> ref \<Rightarrow> led_screen" where
  "find_step ms s r =
     (let mat = ms r in
      if mat_name mat = materialName s
      then s\<lparr>material := Some r,
             originalBaseColorTexture := mat_map mat,
             originalEmissiveTexture := emissiveMap mat,
             originalEmissiveIntensity := num_or (emissiveIntensity mat) 1,
             brightness := num_or (emissiveIntensity mat) 1\<rparr>
      else s)"

fun string_of_digit :: "nat \<Rightarrow> string" where
  "string_of_digit n =
     (if n = 0 then ''0'' else if n = 1 then ''1'' else if n = 2 then ''2''
      else if n = 3 then ''3'' else if n = 4 then ''4'' else if n = 5 then ''5''
      else if n = 6 then ''6'' else if n = 7 then ''7'' else if n = 8 then ''8''
      else ''9'')"

fun string_of_nat :: "nat \<Rightarrow> string" where
  "string_of_nat n =
     (if n < 10 then string_of_digit n
      else string_of_nat (n div 10) @ string_of_digit (n mod 10))"

declare string_of_nat.simps [simp del]

text \<open>One line of \<^verbatim>\<open>logAvailableMaterials\<close>:
  \<^verbatim>\<open>- ${mat.name || 'Unnamed'} (${child.name || 'Unnamed mesh'}_${index})\<close>\<close>

definition material_line :: "(ref \<Rightarrow> std_material) \<Rightarrow> node \<Rightarrow> nat \<times> ref \<Rightarrow> string" where
  "material_line ms child ir =
     ''- '' @ str_or (mat_name (ms (snd ir))) ''Unnamed'' @ '' ('' @
     str_or (obj_name child) ''Unnamed mesh'' @ ''_'' @ string_of_nat (fst ir) @ '')''"

definition child_lines :: "(ref \<Rightarrow> std_material) \<Rightarrow> node \<Rightarrow> string list" where
  "child_lines ms child =
     map (material_line ms child) (enumerate 0 (child_materials child))"

text \<open>\<^verbatim>\<open>logAvailableMaterials\<close> is only called with a mesh present.\<close>

definition available_lines :: "(ref \<Rightarrow> std_material) \<Rightarrow> object3d \<Rightarrow> string list" where
  "available_lines ms m = concat (map (child_lines ms) (traverse m))"

definition logAvailableMaterials :: "object3d \<Rightarrow> app \<Rightarrow> app" where
  "logAvailableMaterials m a =
     a\<lparr>console := console a @ ''Available materials:'' # available_lines (materials a) m\<rparr>"

definition findTargetMaterial :: "led_screen \<Rightarrow> app \<Rightarrow> led_screen \<times> app" where
  "findTargetMaterial s a =
     (case mesh s of
        None \<Rightarrow> (s, a)
      | Some m \<Rightarrow>
          (let s' = foldl (find_step (materials a)) s (mesh_materials m) in
           if material s' = None
           then (s', logAvailableMaterials m
                   (a\<lparr>console := console a @
                        [''LED screen material not found: '' @ materialName s]\<rparr>))
           else (s', a)))"

text \<open>\<^verbatim>\<open>applyGlobalState\<close>: the test that \<^verbatim>\<open>globalBrightness\<close> is neither \<^verbatim>\<open>null\<close> nor
  \<^verbatim>\<open>undefined\<close> always passes, the field being a number.\<close>

definition applyGlobalState :: "led_screen \<Rightarrow> app \<Rightarrow> led_screen \<times> app" where
  "applyGlobalState s a =
     (case material s of
        None \<Rightarrow> (s, a)
      | Some r \<Rightarrow>
          if \<not> has_app s then (s, a)
          else
            (let s1 = s\<lparr>brightness := globalBrightness a\<rparr>;
                 m1 = (materials a r)\<lparr>emissiveIntensity := Some (globalBrightness a)\<rparr>;
                 (s2, m2) =
                   (case globalCustomTexture a of
                      None \<Rightarrow> (s1, m1)
                    | Some t \<Rightarrow> (s1\<lparr>currentTexture := Some t\<rparr>,
                                 m1\<lparr>mat_map := Some t,
                                    emissiveMap := globalCustomEmissiveTexture a\<rparr>))
             in (s2, a\<lparr>materials := (materials a)(r := m2\<lparr>needsUpdate := True\<rparr>)\<rparr>)))"

text \<open>The constructor: \<^verbatim>\<open>new LEDScreen(mesh, materialName, app)\<close>, first the field
  initialisers, then the two calls.\<close>

definition fresh_screen :: "object3d option \<Rightarrow> string \<Rightarrow> bool \<Rightarrow> led_screen" where
  "fresh_screen m nm with_app =
     \<lparr>mesh = m, materialName = nm, material = None,
      originalBaseColorTexture = None, originalEmissiveTexture = None,
      originalEmissiveIntensity = 1, currentTexture = None,
      brightness = 1, has_app = with_app\<rparr>"

definition new_LEDScreen :: "object3d option \<Rightarrow> string \<Rightarrow> bool \<Rightarrow> app \<Rightarrow> led_screen \<times> app" where
  "new_LEDScreen m nm with_app a =
     (let (s1, a1) = findTargetMaterial (fresh_screen m nm with_app) a
      in applyGlobalState s1 a1)"

text \<open>The materials of a mesh that carry a given name, in traversal order.\<close>

definition matches :: "app \<Rightarrow> string \<Rightarrow> object3d \<Rightarrow> ref list" where
  "matches a nm m = filter (\<lambda>r. mat_name (materials a r) = nm) (mesh_materials m)"

text \<open>\<^verbatim>\<open>setCustomTexture(file, callback)\<close>: after the guard, the file is cropped and loaded
  asynchronously; \<open>loaded\<close> is the texture the loader hands to its callback, \<open>None\<close> when the
  image never loads (the source passes no error callback, so nothing happens then).\<close>

definition setCustomTexture :: "ref option \<Rightarrow> led_screen \<Rightarrow> app \<Rightarrow> led_screen \<times> app" where
  "setCustomTexture loaded s a =
     (case material s of
        None \<Rightarrow> (s, a\<lparr>console := console a @ [''No material found to apply texture'']\<rparr>)
      | Some r \<Rightarrow>
          (case loaded of
             None \<Rightarrow> (s, a)
           | Some t \<Rightarrow>
               (let a1 = a\<lparr>textures := (textures a)(t := (textures a t)\<lparr>isCustomTexture := True\<rparr>),
                           materials := (materials a)
                             (r := (materials a r)\<lparr>mat_map := Some t, emissiveMap := Some t,
                                                   needsUpdate := True\<rparr>)\<rparr>;
                    a2 = (if has_app s
                          then a1\<lparr>globalCustomTexture := Some t,
                                  globalCustomEmissiveTexture := Some t\<rparr>
                          else a1)
                in (s\<lparr>currentTexture := Some t\<rparr>, a2))))"

definition setBrightness :: "real \<Rightarrow> led_screen \<Rightarrow> app \<Rightarrow> led_screen \<times> app" where
  "setBrightness intensity s a =
     (case material s of
        None \<Rightarrow> (s, a)
      | Some r \<Rightarrow>
          (let a1 = a\<lparr>materials := (materials a)
                        (r := (materials a r)\<lparr>emissiveIntensity := Some intensity,
                                              needsUpdate := True\<rparr>)\<rparr>
           in (s\<lparr>brightness := intensity\<rparr>,
               if has_app s then a1\<lparr>globalBrightness := intensity\<rparr> else a1)))"

definition resetToOriginal :: "led_screen \<Rightarrow> app \<Rightarrow> led_screen \<times> app" where
  "resetToOriginal s a =
     (case material s of
        None \<Rightarrow> (s, a)
      | Some r \<Rightarrow>
          (let a1 = a\<lparr>materials := (materials a)
                        (r := (materials a r)\<lparr>mat_map := originalBaseColorTexture s,
                                              emissiveMap := originalEmissiveTexture s,
                                              emissiveIntensity := Some (originalEmissiveIntensity s),
                                              needsUpdate := True\<rparr>)\<rparr>
           in (s\<lparr>brightness := originalEmissiveIntensity s, currentTexture := None\<rparr>,
               if has_app s
               then a1\<lparr>globalCustomTexture := None, globalCustomEmissiveTexture := None,
                       globalBrightness := originalEmissiveIntensity s\<rparr>
               else a1)))"

text \<open>A finite sequence of texture and brightness calls on one screen.\<close>

datatype screen_op = SetCustomTexture "ref option" | SetBrightness real

fun screen_step :: "led_screen \<times> app \<Rightarrow> screen_op \<Rightarrow> led_screen \<times> app" where
  "screen_step (s, a) (SetCustomTexture loaded) = setCustomTexture loaded s a"
| "screen_step (s, a) (SetBrightness intensity) = setBrightness intensity s a"

definition run_screen_ops :: "screen_op list \<Rightarrow> led_screen \<times> app \<Rightarrow> led_screen \<times> app" where
  "run_screen_ops ops sa = foldl screen_step sa ops"

section \<open>LEDStudioManager\<close>

definition getStudioByName :: "app \<Rightarrow> string \<Rightarrow> studio option" where
  "getStudioByName a nm = find (\<lambda>st. studio_name st = nm) (availableStudios a)"

record screen_state =
  ss_currentTexture :: "ref option"
  ss_emissiveTexture :: "ref option"
  ss_emissiveIntensity :: "real option"
  ss_baseColorTexture :: "ref option"
  ss_hasCustomTexture :: bool

definition extract_step :: "app \<Rightarrow> screen_state \<Rightarrow> ref \<Rightarrow> screen_state" where
  "extract_step a st r =
     (let mat = materials a r in
      if mat_name mat = ''M_WhiteScreen''
      then (let st1 = st\<lparr>ss_currentTexture := mat_map mat,
                          ss_emissiveTexture := emissiveMap mat,
                          ss_emissiveIntensity := emissiveIntensity mat,
                          ss_baseColorTexture := mat_map mat\<rparr>
            in case mat_map mat of
                 None \<Rightarrow> st1
               | Some t \<Rightarrow>
                   if isCustomTexture (textures a t) \<or> src_is_data_uri (textures a t)
                   then st1\<lparr>ss_hasCustomTexture := True\<rparr> else st1)
      else st)"

definition extractScreenState :: "app \<Rightarrow> object3d \<Rightarrow> screen_state" where
  "extractScreenState a studioMesh =
     foldl (extract_step a)
       \<lparr>ss_currentTexture = None, ss_emissiveTexture = None, ss_emissiveIntensity = None,
        ss_baseColorTexture = None, ss_hasCustomTexture = False\<rparr>
       (mesh_materials studioMesh)"

definition apply_step :: "screen_state \<Rightarrow> (ref \<Rightarrow> std_material) \<Rightarrow> ref \<Rightarrow> (ref \<Rightarrow> std_material)" where
  "apply_step st ms r =
     (let mat = ms r in
      if mat_name mat = ''M_WhiteScreen''
      then (let m1 = (case ss_emissiveIntensity st of
                        None \<Rightarrow> mat
                      | Some i \<Rightarrow> mat\<lparr>emissiveIntensity := Some i\<rparr>);
                m2 = (if ss_hasCustomTexture st \<and> ss_currentTexture st \<noteq> None
                      then m1\<lparr>mat_map := ss_currentTexture st,
                              emissiveMap := ss_emissiveTexture st\<rparr>
                      else m1)
            in ms(r := m2\<lparr>needsUpdate := True\<rparr>))
      else ms)"

definition applyScreenState :: "object3d \<Rightarrow> screen_state \<Rightarrow> app \<Rightarrow> app" where
  "applyScreenState newStudioMesh st a =
     a\<lparr>materials := foldl (apply_step st) (materials a) (mesh_materials newStudioMesh)\<rparr>"

text \<open>The \<^verbatim>\<open>dispose()\<close> calls are recorded in \<open>disposed\<close>, in the order they are made.\<close>

definition texture_slot :: "ref option \<Rightarrow> resource list" where
  "texture_slot t = (case t of None \<Rightarrow> [] | Some x \<Rightarrow> [Texture x])"

definition material_textures :: "std_material \<Rightarrow> resource list" where
  "material_textures mat =
     texture_slot (mat_map mat) @ texture_slot (normalMap mat) @ texture_slot (emissiveMap mat)"

definition dispose_studio_material :: "(ref \<Rightarrow> std_material) \<Rightarrow> ref \<Rightarrow> resource list" where
  "dispose_studio_material ms r =
     (if mat_name (ms r) \<noteq> ''M_WhiteScreen'' then material_textures (ms r) else [])
     @ [Material r]"

definition dispose_studio_child :: "(ref \<Rightarrow> std_material) \<Rightarrow> node \<Rightarrow> resource list" where
  "dispose_studio_child ms child =
     (if isMesh child
      then (case geometry child of None \<Rightarrow> [] | Some g \<Rightarrow> [Geometry g])
           @ concat (map (dispose_studio_material ms) (slot_materials (node_material child)))
      else [])"

definition disposeStudioMesh :: "object3d \<Rightarrow> app \<Rightarrow> app" where
  "disposeStudioMesh m a =
     a\<lparr>disposed := disposed a @ concat (map (dispose_studio_child (materials a)) (traverse m))\<rparr>"

text \<open>\<^verbatim>\<open>Object3D.add\<close> takes the child out of its parent first; \<^verbatim>\<open>Object3D.remove\<close>
  removes the child where it finds it.\<close>

definition scene_remove :: "scene_item \<Rightarrow> scene_item list \<Rightarrow> scene_item list" where
  "scene_remove x xs = remove1 x xs"

definition scene_add :: "scene_item \<Rightarrow> scene_item list \<Rightarrow> scene_item list" where
  "scene_add x xs = remove1 x xs @ [x]"

fun map_nodes :: "(node \<Rightarrow> node) \<Rightarrow> object3d \<Rightarrow> object3d" where
  "map_nodes f (Object3D n cs) = Object3D (f n) (map (map_nodes f) cs)"

text \<open>\<^verbatim>\<open>loadStudioMesh\<close>: the outcome of the external loader is a parameter, \<open>Inl\<close> the error
  it rejects with, \<open>Inr\<close> the scene it loaded.\<close>

definition studio_shadows :: "node \<Rightarrow> node" where
  "studio_shadows child =
     (if isMesh child then child\<lparr>castShadow := False, receiveShadow := True\<rparr> else child)"

definition loadStudioMesh :: "string + object3d \<Rightarrow> string + object3d" where
  "loadStudioMesh gltf =
     (case gltf of
        Inl err \<Rightarrow> Inl err
      | Inr m \<Rightarrow> Inr (map_nodes studio_shadows m))"

text \<open>The first half of \<^verbatim>\<open>switchStudio\<close>: the current studio mesh, if there is one, is
  taken out of the scene and disposed.\<close>

definition remove_current_studio :: "app \<Rightarrow> app" where
  "remove_current_studio a =
     (case currentStudioMesh a of
        None \<Rightarrow> a
      | Some old \<Rightarrow>
          disposeStudioMesh old
            (a\<lparr>scene := scene_remove (MeshRoot (obj_id (root old))) (scene a)\<rparr>))"

record switch_result =
  success :: bool
  result_mesh :: object3d
  result_screenState :: "screen_state option"

text \<open>\<^verbatim>\<open>switchStudio\<close> returns \<^verbatim>\<open>false\<close> (\<open>None\<close>) or the result object. The \<^verbatim>\<open>await\<close> of the
  load is modelled as one step with the outcome of the loader.\<close>

definition switchStudio ::
  "string \<Rightarrow> bool \<Rightarrow> string + object3d \<Rightarrow> app \<Rightarrow> switch_result option \<times> app" where
  "switchStudio studioName preserveScreenState gltf a =
     (case getStudioByName a studioName of
        None \<Rightarrow> (None, a\<lparr>console := console a @ [''Studio not found: '' @ studioName]\<rparr>)
      | Some st \<Rightarrow>
          (let screenState =
                 (if preserveScreenState
                  then map_option (extractScreenState a) (currentStudioMesh a) else None);
               a1 = remove_current_studio a
           in case loadStudioMesh gltf of
                Inl err \<Rightarrow> (None, a1\<lparr>console := console a1 @ [''Error switching studio: '' @ err]\<rparr>)
              | Inr newStudioMesh \<Rightarrow>
                  (let a2 = a1\<lparr>scene := scene_add (MeshRoot (obj_id (root newStudioMesh))) (scene a1),
                              currentStudioMesh := Some newStudioMesh,
                              currentStudio := Some st\<rparr>;
                       a3 = (case screenState of
                               None \<Rightarrow> a2
                             | Some ss \<Rightarrow>
                                 if preserveScreenState
                                 then applyScreenState newStudioMesh ss a2 else a2)
                   in (Some \<lparr>success = True, result_mesh = newStudioMesh,
                             result_screenState = screenState\<rparr>, a3))))"

text \<open>\<^verbatim>\<open>onStudioChange\<close>. Writing \<^verbatim>\<open>this.ledScreen.material.map\<close> with no material bound
  throws a \<^verbatim>\<open>TypeError\<close>, which the surrounding \<^verbatim>\<open>try\<close> catches and logs.\<close>

definition onStudioChange :: "string \<Rightarrow> string + object3d \<Rightarrow> app \<Rightarrow> app" where
  "onStudioChange studioName gltf a =
     (if studioName = [] then a
      else
        (let currentBrightness = globalBrightness a;
             hasCustomTexture = (globalCustomTexture a \<noteq> None);
             (result, a1) = switchStudio studioName False gltf a
         in case result of
              None \<Rightarrow> a1\<lparr>console := console a1 @ [''Failed to change studio'']\<rparr>
            | Some res \<Rightarrow>
                (let (s, a2) = new_LEDScreen (Some (result_mesh res)) ''M_WhiteScreen'' True a1;
                     a3 = a2\<lparr>ledScreen := Some s\<rparr>
                 in if hasCustomTexture \<and> globalCustomTexture a3 \<noteq> None
                    then (case material s of
                            None \<Rightarrow> a3\<lparr>console := console a3 @ [''Error changing studio: TypeError'']\<rparr>
                          | Some r \<Rightarrow>
                              (let a4 = a3\<lparr>materials := (materials a3)
                                            (r := (materials a3 r)
                                               \<lparr>mat_map := globalCustomTexture a3,
                                                emissiveMap := globalCustomEmissiveTexture a3,
                                                needsUpdate := True\<rparr>)\<rparr>;
                                   s4 = s\<lparr>currentTexture := globalCustomTexture a3\<rparr>;
                                   (s5, a5) = setBrightness currentBrightness s4 a4
                               in a5\<lparr>ledScreen := Some s5\<rparr>))
                    else (let (s5, a5) = setBrightness currentBrightness s a3
                          in a5\<lparr>ledScreen := Some s5\<rparr>))))"

text \<open>\<^verbatim>\<open>initializeStudioManager\<close>: the studios found by the existence probes are a
  parameter; the default studio is loaded without preserving screen state.\<close>

definition initializeStudioManager :: "studio list \<Rightarrow> string + object3d \<Rightarrow> app \<Rightarrow> app" where
  "initializeStudioManager found gltf a =
     (let (result, a1) = switchStudio ''MADRID_15X5'' False gltf (a\<lparr>availableStudios := found\<rparr>)
      in case result of
           None \<Rightarrow> a1
         | Some res \<Rightarrow>
             (let (s, a2) = new_LEDScreen (Some (result_mesh res)) ''M_WhiteScreen'' True a1
              in a2\<lparr>ledScreen := Some s, globalBrightness := originalEmissiveIntensity s\<rparr>))"

text \<open>The handlers of the screen controls, which act on \<^verbatim>\<open>app.ledScreen\<close> when it exists.\<close>

definition on_screen :: "(led_screen \<Rightarrow> app \<Rightarrow> led_screen \<times> app) \<Rightarrow> app \<Rightarrow> app" where
  "on_screen f a =
     (case ledScreen a of
        None \<Rightarrow> a
      | Some s \<Rightarrow> (let (s', a') = f s a in a'\<lparr>ledScreen := Some s'\<rparr>))"

section \<open>SceneObject\<close>

text \<open>\<^verbatim>\<open>child.material.emissive\<close> and \<^verbatim>\<open>child.material.emissiveIntensity\<close>: on an array
  of materials both are \<^verbatim>\<open>undefined\<close>.\<close>

definition slot_emissive :: "(ref \<Rightarrow> std_material) \<Rightarrow> mat_slot \<Rightarrow> nat option" where
  "slot_emissive ms sl = (case sl of Single r \<Rightarrow> emissive (ms r) | _ \<Rightarrow> None)"

definition slot_emissiveIntensity :: "(ref \<Rightarrow> std_material) \<Rightarrow> mat_slot \<Rightarrow> real option" where
  "slot_emissiveIntensity ms sl = (case sl of Single r \<Rightarrow> emissiveIntensity (ms r) | _ \<Rightarrow> None)"

definition store_original :: "(ref \<Rightarrow> std_material) \<Rightarrow> node \<Rightarrow> node" where
  "store_original ms child =
     (if isMesh child \<and> node_material child \<noteq> NoMaterial \<and> userData_originalEmissive child = None
      then child\<lparr>userData_originalEmissive :=
                   Some (case slot_emissive ms (node_material child) of
                           None \<Rightarrow> 0x000000 | Some c \<Rightarrow> c),
                 userData_originalEmissiveIntensity :=
                   Some (num_or (slot_emissiveIntensity ms (node_material child)) 0)\<rparr>
      else child)"

definition storeOriginalMaterials :: "(ref \<Rightarrow> std_material) \<Rightarrow> object3d \<Rightarrow> object3d" where
  "storeOriginalMaterials ms m = map_nodes (store_original ms) m"

definition new_SceneObject :: "object3d \<Rightarrow> string \<Rightarrow> string \<Rightarrow> app \<Rightarrow> scene_object" where
  "new_SceneObject m nm ident a =
     \<lparr>so_mesh = storeOriginalMaterials (materials a) m, so_name = nm, so_id = ident,
      so_isSelected = False\<rparr>"

text \<open>The highlight of \<^verbatim>\<open>select\<close>; on an array of materials the assignment of
  \<^verbatim>\<open>needsUpdate\<close> lands on the array and changes no material.\<close>

definition highlight_child :: "(ref \<Rightarrow> std_material) \<Rightarrow> node \<Rightarrow> (ref \<Rightarrow> std_material)" where
  "highlight_child ms child =
     (if isMesh child
      then (case node_material child of
              NoMaterial \<Rightarrow> ms
            | Single r \<Rightarrow>
                ms(r := (if emissive (ms r) \<noteq> None
                         then (ms r)\<lparr>emissive := Some 0x333333, emissiveIntensity := Some 0.3\<rparr>
                         else ms r)\<lparr>needsUpdate := True\<rparr>)
            | Multi rs \<Rightarrow> ms)
      else ms)"

definition SceneObject_select :: "scene_object \<Rightarrow> app \<Rightarrow> scene_object \<times> app" where
  "SceneObject_select so a =
     (if so_isSelected so then (so, a)
      else (so\<lparr>so_isSelected := True\<rparr>,
            a\<lparr>materials := foldl highlight_child (materials a) (traverse (so_mesh so))\<rparr>))"

text \<open>The body of the traversal of \<^verbatim>\<open>deselect\<close>: it tests \<^verbatim>\<open>userData.originalEmissive\<close>
  and then calls \<^verbatim>\<open>child.material.emissive.copy\<close>, which throws a \<^verbatim>\<open>TypeError\<close> when the
  material has no \<^verbatim>\<open>emissive\<close>.\<close>

definition restore_child ::
  "(ref \<Rightarrow> std_material) \<Rightarrow> node \<Rightarrow> js_error + (ref \<Rightarrow> std_material)" where
  "restore_child ms child =
     (if isMesh child \<and> node_material child \<noteq> NoMaterial \<and> userData_originalEmissive child \<noteq> None
      then (case node_material child of
              Single r \<Rightarrow>
                if emissive (ms r) = None then Inl TypeError
                else Inr (ms(r := (ms r)\<lparr>emissive := userData_originalEmissive child,
                                         emissiveIntensity := userData_originalEmissiveIntensity child,
                                         needsUpdate := True\<rparr>))
            | _ \<Rightarrow> Inl TypeError)
      else Inr ms)"

fun restore_children ::
  "(ref \<Rightarrow> std_material) \<Rightarrow> node list \<Rightarrow> completion \<times> (ref \<Rightarrow> std_material)" where
  "restore_children ms [] = (Returned, ms)"
| "restore_children ms (child # rest) =
     (case restore_child ms child of
        Inl e \<Rightarrow> (Thrown e, ms)
      | Inr ms' \<Rightarrow> restore_children ms' rest)"

definition SceneObject_deselect :: "scene_object \<Rightarrow> app \<Rightarrow> completion \<times> scene_object \<times> app" where
  "SceneObject_deselect so a =
     (if \<not> so_isSelected so then (Returned, so, a)
      else (let (c, ms) = restore_children (materials a) (traverse (so_mesh so))
            in (c, so\<lparr>so_isSelected := False\<rparr>, a\<lparr>materials := ms\<rparr>)))"

definition disposeMaterial :: "(ref \<Rightarrow> std_material) \<Rightarrow> ref \<Rightarrow> resource list" where
  "disposeMaterial ms r = material_textures (ms r) @ [Material r]"

definition dispose_object_child :: "(ref \<Rightarrow> std_material) \<Rightarrow> node \<Rightarrow> resource list" where
  "dispose_object_child ms child =
     (if isMesh child
      then (case geometry child of None \<Rightarrow> [] | Some g \<Rightarrow> [Geometry g])
           @ concat (map (disposeMaterial ms) (slot_materials (node_material child)))
      else [])"

definition SceneObject_delete :: "scene_object \<Rightarrow> app \<Rightarrow> app" where
  "SceneObject_delete so a =
     a\<lparr>disposed := disposed a @
          concat (map (dispose_object_child (materials a)) (traverse (so_mesh so)))\<rparr>"

text \<open>A sequence of \<^verbatim>\<open>select()\<close> and \<^verbatim>\<open>deselect()\<close> calls on one object; a call that
  throws ends the handler that made it, the next call comes from a later event.\<close>

datatype sel_call = Select | Deselect

fun sel_step :: "scene_object \<times> app \<Rightarrow> sel_call \<Rightarrow> scene_object \<times> app" where
  "sel_step (so, a) Select = SceneObject_select so a"
| "sel_step (so, a) Deselect = snd (SceneObject_deselect so a)"

definition run_sel_calls :: "sel_call list \<Rightarrow> scene_object \<times> app \<Rightarrow> scene_object \<times> app" where
  "run_sel_calls calls soa = foldl sel_step soa calls"

text \<open>The materials that a selection touches, and the condition under which every child
  that \<^verbatim>\<open>deselect\<close> visits has a single material with an emissive colour and an emissive
  intensity.\<close>

definition touched :: "node list \<Rightarrow> ref set" where
  "touched ns = {r. \<exists>n \<in> set ns. isMesh n \<and> node_material n = Single r}"

definition emissive_children :: "(ref \<Rightarrow> std_material) \<Rightarrow> object3d \<Rightarrow> bool" where
  "emissive_children ms m =
     (\<forall>n \<in> set (traverse m).
        isMesh n \<and> node_material n \<noteq> NoMaterial \<longrightarrow>
        (\<exists>r. node_material n = Single r \<and> emissive (ms r) \<noteq> None \<and>
             emissiveIntensity (ms r) \<noteq> None))"

text \<open>A node whose stored originals are those of its material in the store \<open>ms0\<close>.\<close>

definition cached :: "(ref \<Rightarrow> std_material) \<Rightarrow> node \<Rightarrow> bool" where
  "cached ms0 n =
     (isMesh n \<and> node_material n \<noteq> NoMaterial \<longrightarrow>
      (\<exists>r. node_material n = Single r \<and> emissive (ms0 r) \<noteq> None \<and>
           userData_originalEmissive n = emissive (ms0 r) \<and>
           userData_originalEmissiveIntensity n = emissiveIntensity (ms0 r)))"

text \<open>The two states a placed object alternates between, relative to the material store
  \<open>ms0\<close> it was built on: highlighted when selected, as in \<open>ms0\<close> otherwise.\<close>

definition sel_inv :: "(ref \<Rightarrow> std_material) \<Rightarrow> object3d \<Rightarrow> scene_object \<times> app \<Rightarrow> bool" where
  "sel_inv ms0 M soa =
     (so_mesh (fst soa) = M \<and>
      (\<forall>x. emissive (materials (snd soa) x) =
             (if so_isSelected (fst soa) \<and> x \<in> touched (traverse M) then Some 0x333333
              else emissive (ms0 x)) \<and>
           emissiveIntensity (materials (snd soa) x) =
             (if so_isSelected (fst soa) \<and> x \<in> touched (traverse M) then Some 0.3
              else emissiveIntensity (ms0 x))))"

section \<open>The procedural variant: selectModel and deselectModel\<close>

text \<open>In the procedural variant of the editor a placed model is the loaded mesh itself.
  \<^verbatim>\<open>selectModel\<close> stores the original emissive values inside the traversal that applies
  the highlight: for each child first the store (the same test and values as in
  \<^verbatim>\<open>storeOriginalMaterials\<close>), then the highlight. The traversal threads the material
  store through the tree, parent before children.\<close>

fun select_traverse ::
      "(ref \<Rightarrow> std_material) \<Rightarrow> object3d \<Rightarrow> (ref \<Rightarrow> std_material) \<times> object3d"
  and select_traverse_list ::
      "(ref \<Rightarrow> std_material) \<Rightarrow> object3d list \<Rightarrow> (ref \<Rightarrow> std_material) \<times> object3d list"
where
  "select_traverse ms (Object3D n cs) =
     (let (ms1, cs') = select_traverse_list (highlight_child ms n) cs
      in (ms1, Object3D (store_original ms n) cs'))"
| "select_traverse_list ms [] = (ms, [])"
| "select_traverse_list ms (c # cs) =
     (let (ms1, c') = select_traverse ms c;
          (ms2, cs') = select_traverse_list ms1 cs
      in (ms2, c' # cs'))"

record legacy_app =
  lg_materials :: "ref \<Rightarrow> std_material"
  selectedModel :: "object3d option"

text \<open>\<^verbatim>\<open>deselectModel\<close> runs the same restoring traversal as \<^verbatim>\<open>SceneObject.deselect\<close> and
  clears \<^verbatim>\<open>selectedModel\<close> only after it.\<close>

definition deselectModel :: "legacy_app \<Rightarrow> completion \<times> legacy_app" where
  "deselectModel L =
     (case selectedModel L of
        None \<Rightarrow> (Returned, L)
      | Some model \<Rightarrow>
          (let (c, ms) = restore_children (lg_materials L) (traverse model)
           in case c of
                Thrown e \<Rightarrow> (Thrown e, L\<lparr>lg_materials := ms\<rparr>)
              | Returned \<Rightarrow> (Returned, L\<lparr>lg_materials := ms, selectedModel := None\<rparr>)))"

definition selectModel :: "object3d \<Rightarrow> legacy_app \<Rightarrow> completion \<times> legacy_app" where
  "selectModel model L =
     (if selectedModel L = Some model then (Returned, L)
      else (let (c, L1) = (if selectedModel L \<noteq> None then deselectModel L else (Returned, L))
            in case c of
                 Thrown e \<Rightarrow> (Thrown e, L1)
               | Returned \<Rightarrow>
                   (let (ms, model') = select_traverse (lg_materials L1) model
                    in (Returned, L1\<lparr>selectedModel := Some model', lg_materials := ms\<rparr>))))"

section \<open>CinemaCamera\<close>

text \<open>The arithmetic of Number values. A numeric literal or a finite value read from a
  control is \<open>num x\<close>.\<close>

definition num :: "real \<Rightarrow> jsnum" where
  "num x = Fin (x < 0) \<bar>x\<bar>"

text \<open>A Number is an IEEE 754 binary64 value: 53 significant bits, least exponent -1022.
  The result of an operation is its exact result rounded to the nearest such value, ties
  to the even one. \<open>round_even\<close> rounds to the nearest integer, ties to the even one;
  \<open>round_double\<close> rounds a magnitude \<open>x\<close> to a multiple of the spacing \<open>2\<^sup>e\<^sup>-\<^sup>5\<^sup>2\<close> of the values
  around it, \<open>e\<close> the exponent of \<open>x\<close> and at least -1022 (below \<open>2\<^sup>-\<^sup>1\<^sup>0\<^sup>2\<^sup>2\<close> the spacing stays
  \<open>2\<^sup>-\<^sup>1\<^sup>0\<^sup>7\<^sup>4\<close>, and a magnitude of at most \<open>2\<^sup>-\<^sup>1\<^sup>0\<^sup>7\<^sup>5\<close> becomes zero). A rounded magnitude of
  \<open>2\<^sup>1\<^sup>0\<^sup>2\<^sup>4\<close> or more is an infinity.\<close>

definition round_even :: "real \<Rightarrow> int" where
  "round_even x =
     (let n = \<lfloor>x\<rfloor>; d = x - of_int n
      in if d < 1 / 2 then n else if 1 / 2 < d then n + 1 else if even n then n else n + 1)"

definition round_double :: "real \<Rightarrow> real" where
  "round_double x =
     (if x \<le> 0 then 0
      else (let e = max \<lfloor>log 2 x\<rfloor> (- 1022)
            in of_int (round_even (x / 2 powi (e - 52))) * 2 powi (e - 52)))"

definition rnd :: "bool \<Rightarrow> real \<Rightarrow> jsnum" where
  "rnd neg x = (if 2 ^ 1024 \<le> round_double x then Inf neg else Fin neg (round_double x))"

text \<open>\<^verbatim>\<open>x * y\<close> and \<^verbatim>\<open>x / y\<close>: the sign of the result is the exclusive or of the signs;
  \<^verbatim>\<open>Infinity * 0\<close>, \<^verbatim>\<open>Infinity / Infinity\<close> and \<^verbatim>\<open>0 / 0\<close> are \<^verbatim>\<open>NaN\<close>, and a quotient by
  zero of anything else is an infinity.\<close>

fun js_mul :: "jsnum \<Rightarrow> jsnum \<Rightarrow> jsnum" where
  "js_mul NaN y = NaN"
| "js_mul x NaN = NaN"
| "js_mul (Inf s) (Inf t) = Inf (s \<noteq> t)"
| "js_mul (Inf s) (Fin t y) = (if y = 0 then NaN else Inf (s \<noteq> t))"
| "js_mul (Fin s x) (Inf t) = (if x = 0 then NaN else Inf (s \<noteq> t))"
| "js_mul (Fin s x) (Fin t y) = rnd (s \<noteq> t) (x * y)"

fun js_div :: "jsnum \<Rightarrow> jsnum \<Rightarrow> jsnum" where
  "js_div NaN y = NaN"
| "js_div x NaN = NaN"
| "js_div (Inf s) (Inf t) = NaN"
| "js_div (Inf s) (Fin t y) = Inf (s \<noteq> t)"
| "js_div (Fin s x) (Inf t) = Fin (s \<noteq> t) 0"
| "js_div (Fin s x) (Fin t y) =
     (if y = 0 then (if x = 0 then NaN else Inf (s \<noteq> t)) else rnd (s \<noteq> t) (x / y))"

text \<open>\<^verbatim>\<open>Math.atan\<close> keeps the sign of its argument and maps the infinities to \<open>\<plusminus>\<pi>/2\<close>. The
  language leaves the last bits of its result to the implementation; here it is the arc
  tangent rounded like the result of an operation. \<^verbatim>\<open>Math.PI\<close> is the Number value for \<open>\<pi>\<close>.\<close>

fun Math_atan :: "jsnum \<Rightarrow> jsnum" where
  "Math_atan NaN = NaN"
| "Math_atan (Inf s) = rnd s (pi / 2)"
| "Math_atan (Fin s x) = rnd s (arctan x)"

definition Math_PI :: jsnum where
  "Math_PI = rnd False pi"




text \<open>\<^verbatim>\<open>2 * Math.atan(this.sensorSize / (2 * this.focalLength)) * 180 / Math.PI\<close>, operation
  by operation, multiplication and division associating to the left.\<close>

definition compute_fov :: "jsnum \<Rightarrow> jsnum \<Rightarrow> jsnum" where
  "compute_fov sensor focal =
     js_div
       (js_mul (js_mul (num 2) (Math_atan (js_div sensor (js_mul (num 2) focal)))) (num 180))
       Math_PI"

definition updateCameraSettings :: "cinema_camera \<Rightarrow> cinema_camera" where
  "updateCameraSettings c = c\<lparr>fov := compute_fov (sensorSize c) (focalLength c)\<rparr>"

definition new_CinemaCamera :: "string \<Rightarrow> string \<Rightarrow> cinema_camera" where
  "new_CinemaCamera nm ident =
     updateCameraSettings
       \<lparr>cam_name = nm, cam_id = ident, cam_isSelected = False, helper_visible = False,
        mesh_visible = True, mesh_emissive = 0x442200, mesh_emissiveIntensity = 0.3,
        focalLength = num 50, sensorSize = num 24, fov = num 75\<rparr>"

definition CinemaCamera_select :: "cinema_camera \<Rightarrow> cinema_camera" where
  "CinemaCamera_select c =
     (if cam_isSelected c then c
      else c\<lparr>cam_isSelected := True, helper_visible := True,
             mesh_emissive := 0x884400, mesh_emissiveIntensity := 0.6\<rparr>)"

definition CinemaCamera_deselect :: "cinema_camera \<Rightarrow> cinema_camera" where
  "CinemaCamera_deselect c =
     (if \<not> cam_isSelected c then c
      else c\<lparr>cam_isSelected := False, helper_visible := False,
             mesh_emissive := 0x442200, mesh_emissiveIntensity := 0.3\<rparr>)"

definition setFocalLength :: "jsnum \<Rightarrow> cinema_camera \<Rightarrow> cinema_camera" where
  "setFocalLength len c = updateCameraSettings (c\<lparr>focalLength := len\<rparr>)"

definition setSensorSize :: "jsnum \<Rightarrow> cinema_camera \<Rightarrow> cinema_camera" where
  "setSensorSize sz c = updateCameraSettings (c\<lparr>sensorSize := sz\<rparr>)"

section \<open>LEDStageApp: cameras, selection, capture\<close>

text \<open>\<^verbatim>\<open>Map.set\<close> replaces the value of a key that is present and appends a new key;
  \<^verbatim>\<open>Map.delete\<close> removes the key.\<close>

definition map_set :: "string \<Rightarrow> ref \<Rightarrow> (string \<times> ref) list \<Rightarrow> (string \<times> ref) list" where
  "map_set k v kvs =
     (if k \<in> set (map fst kvs)
      then map (\<lambda>kv. if fst kv = k then (k, v) else kv) kvs
      else kvs @ [(k, v)])"

definition map_delete :: "string \<Rightarrow> (string \<times> ref) list \<Rightarrow> (string \<times> ref) list" where
  "map_delete k kvs = filter (\<lambda>kv. fst kv \<noteq> k) kvs"

record visibilities =
  vis_cameras :: "(bool \<times> bool) list"
  vis_transformControls :: bool

definition hide_step ::
  "(bool \<times> bool) list \<times> (ref \<Rightarrow> cinema_camera) \<Rightarrow> ref \<Rightarrow>
   (bool \<times> bool) list \<times> (ref \<Rightarrow> cinema_camera)" where
  "hide_step vc r =
     (fst vc @ [(helper_visible (snd vc r), mesh_visible (snd vc r))],
      (snd vc)(r := (snd vc r)\<lparr>helper_visible := False, mesh_visible := False\<rparr>))"

text \<open>A camera with its helper and its proxy mesh made invisible.\<close>

definition hidden :: "cinema_camera \<Rightarrow> cinema_camera" where
  "hidden c = c\<lparr>helper_visible := False, mesh_visible := False\<rparr>"

definition hideCameraVisualsForCapture :: "app \<Rightarrow> visibilities \<times> app" where
  "hideCameraVisualsForCapture a =
     (let (vis, cams) = foldl hide_step ([], cameras a) (map snd (cinemaCameras a))
      in (\<lparr>vis_cameras = vis, vis_transformControls = transformControls_visible a\<rparr>,
          a\<lparr>cameras := cams, transformControls_visible := False\<rparr>))"

text \<open>\<^verbatim>\<open>if (visibilities.cameras[index])\<close>: an index past the end reads \<^verbatim>\<open>undefined\<close>.\<close>

definition restore_step ::
  "(bool \<times> bool) list \<Rightarrow> (ref \<Rightarrow> cinema_camera) \<Rightarrow> nat \<times> ref \<Rightarrow> (ref \<Rightarrow> cinema_camera)" where
  "restore_step vis cams ir =
     (if fst ir < length vis
      then cams(snd ir := (cams (snd ir))\<lparr>helper_visible := fst (vis ! fst ir),
                                           mesh_visible := snd (vis ! fst ir)\<rparr>)
      else cams)"

definition restoreCameraVisualsAfterCapture :: "visibilities \<Rightarrow> app \<Rightarrow> app" where
  "restoreCameraVisualsAfterCapture v a =
     a\<lparr>transformControls_visible := vis_transformControls v,
       cameras := foldl (restore_step (vis_cameras v)) (cameras a)
                    (enumerate 0 (map snd (cinemaCameras a)))\<rparr>"

text \<open>\<^verbatim>\<open>CinemaCamera.capture(app)\<close>. The renderer is an external service: \<open>fails_at\<close> names
  the step at which it throws, if any. Nothing in \<^verbatim>\<open>capture\<close> catches the exception.\<close>

datatype capture_step = CreateRenderer | Render | Encode

definition capture :: "capture_step option \<Rightarrow> app \<Rightarrow> completion \<times> app" where
  "capture fails_at a =
     (if fails_at = Some CreateRenderer then (Thrown RenderError, a)
      else (let (v, a1) = hideCameraVisualsForCapture a
            in if fails_at = Some Render \<or> fails_at = Some Encode
               then (Thrown RenderError, a1)
               else (Returned, restoreCameraVisualsAfterCapture v a1)))"

text \<open>\<^verbatim>\<open>renderCameraPreview\<close> repeats the hiding and the restoring of the two functions
  above inline, statement for statement.\<close>

definition renderCameraPreview :: "bool \<Rightarrow> app \<Rightarrow> completion \<times> app" where
  "renderCameraPreview render_fails a =
     (let cameraToRender =
            (case pinnedCamera a of Some r \<Rightarrow> Some (CamRef r) | None \<Rightarrow> selectedObject a)
      in case cameraToRender of
           Some (CamRef r) \<Rightarrow>
             if \<not> cameraPreviewRenderer a then (Returned, a)
             else (let (v, a1) = hideCameraVisualsForCapture a
                   in if render_fails then (Thrown RenderError, a1)
                      else (Returned, restoreCameraVisualsAfterCapture v a1))
         | _ \<Rightarrow> (Returned, a))"

definition showCameraPreview :: "bool \<Rightarrow> app \<Rightarrow> completion \<times> app" where
  "showCameraPreview render_fails a =
     (case selectedObject a of
        Some (CamRef r) \<Rightarrow> renderCameraPreview render_fails (a\<lparr>cameraPreviewRenderer := True\<rparr>)
      | _ \<Rightarrow> (Returned, a))"

definition entity_select :: "sel_ref \<Rightarrow> app \<Rightarrow> app" where
  "entity_select obj a =
     (case obj of
        ObjRef r \<Rightarrow>
          (let (so, a1) = SceneObject_select (scene_objs a r) a
           in a1\<lparr>scene_objs := (scene_objs a1)(r := so)\<rparr>)
      | CamRef r \<Rightarrow> a\<lparr>cameras := (cameras a)(r := CinemaCamera_select (cameras a r))\<rparr>)"

definition entity_deselect :: "sel_ref \<Rightarrow> app \<Rightarrow> completion \<times> app" where
  "entity_deselect obj a =
     (case obj of
        ObjRef r \<Rightarrow>
          (let (c, so, a1) = SceneObject_deselect (scene_objs a r) a
           in (c, a1\<lparr>scene_objs := (scene_objs a1)(r := so)\<rparr>))
      | CamRef r \<Rightarrow>
          (Returned, a\<lparr>cameras := (cameras a)(r := CinemaCamera_deselect (cameras a r))\<rparr>))"

text \<open>\<^verbatim>\<open>TransformControls.attach\<close> stores the object and makes the gizmo visible;
  \<^verbatim>\<open>detach\<close> clears the object and hides the gizmo.\<close>

definition transform_target :: "app \<Rightarrow> sel_ref \<Rightarrow> scene_item" where
  "transform_target a obj =
     (case obj of
        ObjRef r \<Rightarrow> MeshRoot (obj_id (root (so_mesh (scene_objs a r))))
      | CamRef r \<Rightarrow> CameraGroup r)"

definition detach :: "app \<Rightarrow> app" where
  "detach a = a\<lparr>transformControls_object := None, transformControls_visible := False\<rparr>"

definition selectObject :: "sel_ref \<Rightarrow> bool \<Rightarrow> app \<Rightarrow> completion \<times> app" where
  "selectObject obj render_fails a =
     (if selectedObject a = Some obj then (Returned, a)
      else
        (let (c, a1) = (case selectedObject a of
                          None \<Rightarrow> (Returned, a)
                        | Some prev \<Rightarrow> entity_deselect prev a)
         in case c of
              Thrown e \<Rightarrow> (Thrown e, a1)
            | Returned \<Rightarrow>
                (let a2 = entity_select obj (a1\<lparr>selectedObject := Some obj\<rparr>);
                     a3 = a2\<lparr>transformControls_object := Some (transform_target a2 obj),
                             transformControls_visible := True\<rparr>
                 in case obj of
                      ObjRef r \<Rightarrow> (Returned, a3)
                    | CamRef r \<Rightarrow> showCameraPreview render_fails a3)))"

definition deselectAll :: "app \<Rightarrow> completion \<times> app" where
  "deselectAll a =
     (let (c, a1) = (case selectedObject a of
                       None \<Rightarrow> (Returned, a)
                     | Some cur \<Rightarrow>
                         (let (c, a') = entity_deselect cur a
                          in case c of
                               Thrown e \<Rightarrow> (Thrown e, a')
                             | Returned \<Rightarrow> (Returned, a'\<lparr>selectedObject := None\<rparr>)))
      in case c of
           Thrown e \<Rightarrow> (Thrown e, a1)
         | Returned \<Rightarrow> (Returned, detach a1))"

definition pinCameraPreview :: "app \<Rightarrow> app" where
  "pinCameraPreview a =
     (case selectedObject a of
        Some (CamRef r) \<Rightarrow> a\<lparr>pinnedCamera := Some r\<rparr>
      | _ \<Rightarrow> a)"

definition unpinCameraPreview :: "app \<Rightarrow> app" where
  "unpinCameraPreview a =
     (case pinnedCamera a of
        Some r \<Rightarrow> a\<lparr>pinnedCamera := None\<rparr>
      | None \<Rightarrow> a)"

definition togglePinCameraPreview :: "app \<Rightarrow> app" where
  "togglePinCameraPreview a =
     (if pinnedCamera a \<noteq> None then unpinCameraPreview a else pinCameraPreview a)"

text \<open>\<^verbatim>\<open>CinemaCamera.delete\<close> takes the group and the helper out of the scene; the disposal
  of the proxy's own geometry and material and of the helper is not recorded.\<close>

definition CinemaCamera_delete :: "ref \<Rightarrow> app \<Rightarrow> app" where
  "CinemaCamera_delete r a =
     a\<lparr>scene := scene_remove (CameraHelper r) (scene_remove (CameraGroup r) (scene a))\<rparr>"

definition deleteSelectedObject :: "app \<Rightarrow> app" where
  "deleteSelectedObject a =
     (case selectedObject a of
        None \<Rightarrow> a
      | Some (ObjRef r) \<Rightarrow>
          (let so = scene_objs a r;
               a1 = a\<lparr>scene := scene_remove (MeshRoot (obj_id (root (so_mesh so)))) (scene a)\<rparr>;
               a2 = SceneObject_delete so a1;
               a3 = a2\<lparr>sceneObjects := map_delete (so_id so) (sceneObjects a2)\<rparr>
           in (detach a3)\<lparr>selectedObject := None\<rparr>)
      | Some (CamRef r) \<Rightarrow>
          (let a1 = (if pinnedCamera a = Some r then unpinCameraPreview a else a);
               a2 = CinemaCamera_delete r a1;
               a3 = a2\<lparr>cinemaCameras := map_delete (cam_id (cameras a2 r)) (cinemaCameras a2)\<rparr>
           in (detach a3)\<lparr>selectedObject := None\<rparr>))"

text \<open>\<^verbatim>\<open>createCinemaCamera\<close>: \<^verbatim>\<open>new\<close> yields an object no reference pointed to before;
  the id that \<^verbatim>\<open>generateUniqueId\<close> draws from the clock and the random generator is a
  parameter.\<close>

definition createCinemaCamera :: "string \<Rightarrow> app \<Rightarrow> app" where
  "createCinemaCamera ident a =
     (let r = next_camera a;
          c = new_CinemaCamera (''Camera '' @ string_of_nat (cameraCounter a)) ident
      in a\<lparr>cameras := (cameras a)(r := c),
           next_camera := Suc r,
           cameraCounter := Suc (cameraCounter a),
           scene := scene_add (CameraHelper r) (scene_add (CameraGroup r) (scene a)),
           cinemaCameras := map_set ident r (cinemaCameras a)\<rparr>)"

text \<open>\<^verbatim>\<open>loadGLTFModel\<close>, at the time the loader calls back: with the scene it loaded
  (\<open>Inr\<close>) or with an error (\<open>Inl\<close>).\<close>

definition model_shadows :: "node \<Rightarrow> node" where
  "model_shadows child =
     (if isMesh child then child\<lparr>castShadow := True, receiveShadow := True\<rparr> else child)"

definition loadGLTFModel :: "string + object3d \<Rightarrow> string \<Rightarrow> string \<Rightarrow> app \<Rightarrow> app" where
  "loadGLTFModel gltf nm ident a =
     (case gltf of
        Inl err \<Rightarrow> a\<lparr>console := console a @ [''Error loading model: '' @ err]\<rparr>
      | Inr m \<Rightarrow>
          (let modelMesh = map_nodes model_shadows m;
               a1 = a\<lparr>scene := scene_add (MeshRoot (obj_id (root modelMesh))) (scene a)\<rparr>;
               r = next_scene_obj a1
           in a1\<lparr>scene_objs := (scene_objs a1)(r := new_SceneObject modelMesh nm ident a1),
                 next_scene_obj := Suc r,
                 sceneObjects := map_set ident r (sceneObjects a1)\<rparr>))"

text \<open>One frame of the fullscreen render loop hides every camera's visuals and the gizmo.\<close>

definition renderFullscreen :: "app \<Rightarrow> app" where
  "renderFullscreen a =
     (case selectedObject a of
        Some (CamRef r) \<Rightarrow>
          if isFullscreen a
          then a\<lparr>cameras := foldl (\<lambda>cams x. cams(x := (cams x)\<lparr>helper_visible := False,
                                                               mesh_visible := False\<rparr>))
                               (cameras a) (map snd (cinemaCameras a)),
                 transformControls_visible := False\<rparr>
          else a
      | _ \<Rightarrow> a)"

definition enterFullscreen :: "app \<Rightarrow> app" where
  "enterFullscreen a =
     (case selectedObject a of
        Some (CamRef r) \<Rightarrow> renderFullscreen (a\<lparr>isFullscreen := True\<rparr>)
      | _ \<Rightarrow> a)"

definition exitFullscreen :: "app \<Rightarrow> app" where
  "exitFullscreen a =
     (if \<not> isFullscreen a then a
      else (case selectedObject a of
              Some (CamRef r) \<Rightarrow>
                a\<lparr>isFullscreen := False,
                  cameras := (cameras a)(r := (cameras a r)\<lparr>helper_visible := True,
                                                            mesh_visible := True\<rparr>),
                  transformControls_visible := True\<rparr>
            | _ \<Rightarrow> a\<lparr>isFullscreen := False\<rparr>))"

text \<open>The handlers of the camera sliders act on the selected camera.\<close>

definition on_selected_camera :: "(cinema_camera \<Rightarrow> cinema_camera) \<Rightarrow> app \<Rightarrow> app" where
  "on_selected_camera f a =
     (case selectedObject a of
        Some (CamRef r) \<Rightarrow> a\<lparr>cameras := (cameras a)(r := f (cameras a r))\<rparr>
      | _ \<Rightarrow> a)"

text \<open>Two states with the same collections, allocation counters and object ids.\<close>

definition same_collections :: "app \<Rightarrow> app \<Rightarrow> bool" where
  "same_collections a' a =
     (sceneObjects a' = sceneObjects a \<and> cinemaCameras a' = cinemaCameras a \<and>
      next_scene_obj a' = next_scene_obj a \<and> next_camera a' = next_camera a \<and>
      (\<forall>r. so_id (scene_objs a' r) = so_id (scene_objs a r)) \<and>
      (\<forall>r. cam_id (cameras a' r) = cam_id (cameras a r)))"

section \<open>Events and reachable states\<close>

text \<open>The state the constructor of \<^verbatim>\<open>LEDStageApp\<close> leaves, over any contents of the
  stores.\<close>

definition initial_app ::
  "(ref \<Rightarrow> std_material) \<Rightarrow> (ref \<Rightarrow> texture) \<Rightarrow> (ref \<Rightarrow> scene_object) \<Rightarrow>
   (ref \<Rightarrow> cinema_camera) \<Rightarrow> app" where
  "initial_app ms ts sos cs =
     \<lparr>materials = ms, textures = ts, disposed = [], console = [],
      scene = [Gizmo, SpotLight, AmbientLight], ledScreen = None, availableStudios = [],
      currentStudio = None, currentStudioMesh = None, globalCustomTexture = None,
      globalCustomEmissiveTexture = None, globalBrightness = 1,
      scene_objs = sos, next_scene_obj = 0, cameras = cs, next_camera = 0,
      sceneObjects = [], cinemaCameras = [], selectedObject = None, pinnedCamera = None,
      transformControls_visible = False, transformControls_object = None,
      cameraPreviewRenderer = False, isFullscreen = False, cameraCounter = 1\<rparr>"

datatype event =
    InitStudio "studio list" "string + object3d"
  | StudioChange string "string + object3d"
  | UploadTexture "ref option"
  | BrightnessSlider real
  | ResetButton
  | ModelLoad "string + object3d" string string
  | AddCamera string
  | Click "sel_ref option" bool
  | EscapeKey
  | DeleteKey
  | CaptureKey "capture_step option"
  | Frame bool
  | PinButton
  | FocalLengthSlider jsnum
  | SensorSizeSlider jsnum
  | FullscreenButton
  | FullscreenFrame

text \<open>An exception that leaves a handler is not caught anywhere: the handler ends and the
  state stays as the handler left it.\<close>

fun step :: "event \<Rightarrow> app \<Rightarrow> app" where
  "step (InitStudio found gltf) a = initializeStudioManager found gltf a"
| "step (StudioChange nm gltf) a = onStudioChange nm gltf a"
| "step (UploadTexture loaded) a = on_screen (setCustomTexture loaded) a"
| "step (BrightnessSlider x) a = on_screen (setBrightness x) a"
| "step ResetButton a = on_screen resetToOriginal a"
| "step (ModelLoad gltf nm ident) a = loadGLTFModel gltf nm ident a"
| "step (AddCamera ident) a = createCinemaCamera ident a"
| "step (Click (Some obj) render_fails) a = snd (selectObject obj render_fails a)"
| "step (Click None render_fails) a = snd (deselectAll a)"
| "step EscapeKey a = (if isFullscreen a then exitFullscreen a else snd (deselectAll a))"
| "step DeleteKey a = deleteSelectedObject a"
| "step (CaptureKey fails_at) a =
     (case selectedObject a of
        Some (CamRef r) \<Rightarrow> snd (capture fails_at a)
      | _ \<Rightarrow> a)"
| "step (Frame render_fails) a =
     (if cameraPreviewRenderer a \<and>
         ((case selectedObject a of Some (CamRef r) \<Rightarrow> True | _ \<Rightarrow> False) \<or> pinnedCamera a \<noteq> None)
      then snd (renderCameraPreview render_fails a) else a)"
| "step PinButton a = togglePinCameraPreview a"
| "step (FocalLengthSlider x) a = on_selected_camera (setFocalLength x) a"
| "step (SensorSizeSlider x) a = on_selected_camera (setSensorSize x) a"
| "step FullscreenButton a = (if isFullscreen a then exitFullscreen a else enterFullscreen a)"
| "step FullscreenFrame a = renderFullscreen a"

text \<open>A click selects what the ray hit: an object of one of the two collections.\<close>

fun enabled :: "event \<Rightarrow> app \<Rightarrow> bool" where
  "enabled (Click (Some (ObjRef r)) render_fails) a = (r \<in> set (map snd (sceneObjects a)))"
| "enabled (Click (Some (CamRef r)) render_fails) a = (r \<in> set (map snd (cinemaCameras a)))"
| "enabled e a = True"

inductive reachable :: "app \<Rightarrow> bool" where
  reachable_init: "reachable (initial_app ms ts sos cs)"
| reachable_step: "reachable a \<Longrightarrow> enabled e a \<Longrightarrow> reachable (step e a)"

text \<open>The objects of the two collections, and which of them report \<^verbatim>\<open>isSelected\<close>.\<close>

definition selectable :: "app \<Rightarrow> sel_ref set" where
  "selectable a = ObjRef ` set (map snd (sceneObjects a)) \<union> CamRef ` set (map snd (cinemaCameras a))"

fun isSelected :: "app \<Rightarrow> sel_ref \<Rightarrow> bool" where
  "isSelected a (ObjRef r) = so_isSelected (scene_objs a r)"
| "isSelected a (CamRef r) = cam_isSelected (cameras a r)"

text \<open>What holds of the two collections in every reachable state: the keys of the camera
  map and the cameras it holds are pairwise different, every object of a collection was
  allocated and is filed under its own id, and an object of a collection that reports
  \<^verbatim>\<open>isSelected\<close> is the one in the selection slot.\<close>

definition wf_app :: "app \<Rightarrow> bool" where
  "wf_app a =
     (distinct (map fst (cinemaCameras a)) \<and> distinct (map snd (cinemaCameras a)) \<and>
      (\<forall>kr \<in> set (sceneObjects a).
         snd kr < next_scene_obj a \<and> so_id (scene_objs a (snd kr)) = fst kr) \<and>
      (\<forall>kr \<in> set (cinemaCameras a).
         snd kr < next_camera a \<and> cam_id (cameras a (snd kr)) = fst kr) \<and>
      (\<forall>x \<in> selectable a. isSelected a x \<longrightarrow> selectedObject a = Some x))"

text \<open>The part of the state that \<open>wf_app\<close> reads.\<close>

definition sel_view ::
  "app \<Rightarrow> (string \<times> ref) list \<times> (string \<times> ref) list \<times> sel_ref option \<times> ref \<times> ref \<times>
     (ref \<Rightarrow> bool \<times> string) \<times> (ref \<Rightarrow> bool \<times> string)" where
  "sel_view a =
     (sceneObjects a, cinemaCameras a, selectedObject a, next_scene_obj a, next_camera a,
      (\<lambda>r. (so_isSelected (scene_objs a r), so_id (scene_objs a r))),
      (\<lambda>r. (cam_isSelected (cameras a r), cam_id (cameras a r))))"

definition at_most_one_selected :: "app \<Rightarrow> bool" where
  "at_most_one_selected a =
     (\<forall>x \<in> selectable a. \<forall>y \<in> selectable a. isSelected a x \<and> isSelected a y \<longrightarrow> x = y)"

section \<open>Concrete scenes\<close>

text \<open>Small scenes on which the operations are run: a studio whose mesh carries two
  materials named \<^verbatim>\<open>M_WhiteScreen\<close>, a studio without one, and a second studio.\<close>

definition ex_material :: "string \<Rightarrow> ref option \<Rightarrow> ref option \<Rightarrow> real option \<Rightarrow> std_material" where
  "ex_material nm m em i =
     \<lparr>mat_name = nm, mat_map = m, normalMap = None, emissiveMap = em, emissive = Some 0,
      emissiveIntensity = i, needsUpdate = False\<rparr>"

definition ex_materials :: "ref \<Rightarrow> std_material" where
  "ex_materials r =
     (if r = 1 then ex_material ''M_WhiteScreen'' (Some 11) (Some 12) (Some 2)
      else if r = 2 then ex_material ''M_WhiteScreen'' (Some 13) (Some 14) None
      else if r = 3 then ex_material ''M_WhiteScreen'' (Some 15) (Some 15) (Some 3)
      else if r = 5 then (ex_material ''Unlit'' None None None)\<lparr>emissive := None\<rparr>
      else if r = 6 then (ex_material ''Paint'' None None (Some 1))\<lparr>emissive := Some 0x112233\<rparr>
      else ex_material ''M_Wall'' (Some 10) None (Some 1))"

definition ex_node :: "nat \<Rightarrow> string \<Rightarrow> bool \<Rightarrow> mat_slot \<Rightarrow> node" where
  "ex_node i nm is_mesh sl =
     \<lparr>obj_id = i, obj_name = nm, isMesh = is_mesh,
      geometry = (if is_mesh then Some i else None), node_material = sl,
      castShadow = False, receiveShadow = False,
      userData_originalEmissive = None, userData_originalEmissiveIntensity = None\<rparr>"

definition ex_studio_two :: object3d where
  "ex_studio_two =
     Object3D (ex_node 100 ''Madrid'' False NoMaterial)
       [Object3D (ex_node 101 ''Wall'' True (Single 0)) [],
        Object3D (ex_node 102 ''ScreenA'' True (Single 1)) [],
        Object3D (ex_node 103 ''ScreenB'' True (Single 2)) []]"

definition ex_studio_plain :: object3d where
  "ex_studio_plain =
     Object3D (ex_node 110 ''Hall'' False NoMaterial)
       [Object3D (ex_node 111 ''Wall'' True (Single 0)) []]"

definition ex_studio_next :: object3d where
  "ex_studio_next =
     Object3D (ex_node 120 ''Barcelona'' False NoMaterial)
       [Object3D (ex_node 121 ''Floor'' True (Single 4)) [],
        Object3D (ex_node 122 ''Screen'' True (Single 3)) []]"

text \<open>Two props: one with an unlit material (no emissive channel) on its first child, one
  whose two children share a material.\<close>

definition ex_prop :: object3d where
  "ex_prop =
     Object3D (ex_node 200 ''Car'' False NoMaterial)
       [Object3D (ex_node 201 ''Glass'' True (Single 5)) [],
        Object3D (ex_node 202 ''Body'' True (Single 6)) []]"

definition ex_prop_shared :: object3d where
  "ex_prop_shared =
     Object3D (ex_node 210 ''Chair'' False NoMaterial)
       [Object3D (ex_node 211 ''Seat'' True (Single 6)) [],
        Object3D (ex_node 212 ''Back'' True (Single 6)) []]"

definition ex_app :: app where
  "ex_app =
     initial_app ex_materials (\<lambda>t. \<lparr>isCustomTexture = False, src_is_data_uri = False\<rparr>)
       (\<lambda>r. \<lparr>so_mesh = ex_studio_plain, so_name = [], so_id = [], so_isSelected = False\<rparr>)
       (\<lambda>r. new_CinemaCamera [] [])"

text \<open>The two props as placed objects and, for the procedural variant, as models.\<close>

definition ex_car :: scene_object where
  "ex_car = new_SceneObject (map_nodes model_shadows ex_prop) ''Car'' ''k2'' ex_app"

definition ex_chair :: scene_object where
  "ex_chair = new_SceneObject (map_nodes model_shadows ex_prop_shared) ''Chair'' ''k3'' ex_app"

definition ex_legacy :: legacy_app where
  "ex_legacy = \<lparr>lg_materials = ex_materials, selectedModel = None\<rparr>"

text \<open>The application after a camera was added and clicked, and after a chair was loaded,
  a camera was added, the camera was clicked and then the chair.\<close>

definition ex_app_camera :: app where
  "ex_app_camera = step (Click (Some (CamRef 0)) False) (step (AddCamera ''k1'') ex_app)"

definition ex_app_two :: app where
  "ex_app_two =
     step (Click (Some (ObjRef 0)) False)
       (step (Click (Some (CamRef 0)) False)
          (step (AddCamera ''k1'')
             (step (ModelLoad (Inr ex_prop_shared) ''Chair'' ''k3'') ex_app)))"

text \<open>The application after a custom texture (reference 20) was applied and the brightness
  slider was set to 0.7.\<close>

definition ex_app_custom :: app where
  "ex_app_custom =
     ex_app\<lparr>globalCustomTexture := Some 20, globalCustomEmissiveTexture := Some 20,
            globalBrightness := 7 / 10\<rparr>"

text \<open>The application after start-up with the two known studios, Madrid loaded; then
  after a texture upload (the loader hands over texture 20) and a move of the brightness
  slider to 0.7.\<close>

definition ex_madrid :: studio where
  "ex_madrid =
     \<lparr>studio_name = ''MADRID_15X5'', displayName = ''Madrid 15x5'',
      gltfPath = ''public/LED_Studio/MADRID_15X5/LED_Studio_Madrid.gltf'',
      folderPath = ''public/LED_Studio/MADRID_15X5/''\<rparr>"

definition ex_barcelona :: studio where
  "ex_barcelona =
     \<lparr>studio_name = ''BARCELONA'', displayName = ''Barcelona'',
      gltfPath = ''public/LED_Studio/BARCELONA/LED_Studio_Barcelona.gltf'',
      folderPath = ''public/LED_Studio/BARCELONA/''\<rparr>"

definition ex_app_madrid :: app where
  "ex_app_madrid = step (InitStudio [ex_madrid, ex_barcelona] (Inr ex_studio_two)) ex_app"






section \<open>Binding a screen\<close>

lemma find_step_materialName [simp]: "materialName (find_step ms s r) = materialName s"
  by (simp add: find_step_def Let_def)

lemma find_step_twice:
  "mat_name (ms r) = materialName s \<Longrightarrow> find_step ms (find_step ms s r') r = find_step ms s r"
  by (simp add: find_step_def Let_def)

lemma find_step_miss:
  "mat_name (ms r) \<noteq> materialName s \<Longrightarrow> find_step ms s r = s"
  by (simp add: find_step_def Let_def)

lemma foldl_find_step:
  "foldl (find_step ms) s rs =
     (case filter (\<lambda>r. mat_name (ms r) = materialName s) rs of
        [] \<Rightarrow> s
      | x # xs \<Rightarrow> find_step ms s (last (x # xs)))"
proof (induction rs rule: rev_induct)
  case Nil
  show ?case by simp
next
  case (snoc r rs)
  show ?case
  proof (cases "mat_name (ms r) = materialName s")
    case True
    then show ?thesis
      using snoc by (simp add: find_step_twice find_step_miss split: list.splits)
  next
    case False
    then show ?thesis
      using snoc by (simp add: find_step_miss split: list.splits)
  qed
qed

lemma foldl_find_none:
  "matches a (materialName s) m = [] \<Longrightarrow>
   foldl (find_step (materials a)) s (mesh_materials m) = s"
  by (simp add: foldl_find_step matches_def)

lemma foldl_find_some:
  "matches a (materialName s) m \<noteq> [] \<Longrightarrow>
   foldl (find_step (materials a)) s (mesh_materials m) =
     find_step (materials a) s (last (matches a (materialName s) m))"
  by (simp add: foldl_find_step matches_def split: list.splits)

lemma last_matches:
  assumes "matches a nm m \<noteq> []"
  shows "last (matches a nm m) \<in> set (mesh_materials m)"
    and "mat_name (materials a (last (matches a nm m))) = nm"
proof -
  have "last (matches a nm m) \<in> set (matches a nm m)"
    using assms by simp
  then show "last (matches a nm m) \<in> set (mesh_materials m)"
    and "mat_name (materials a (last (matches a nm m))) = nm"
    by (simp_all add: matches_def)
qed

lemma findTargetMaterial_found:
  assumes "mesh s = Some m" and "matches a (materialName s) m \<noteq> []"
  shows "findTargetMaterial s a =
           (find_step (materials a) s (last (matches a (materialName s) m)), a)"
  using assms last_matches(2)[OF assms(2)]
  by (simp add: findTargetMaterial_def foldl_find_some Let_def find_step_def)

lemma findTargetMaterial_not_found:
  assumes "mesh s = Some m" and "matches a (materialName s) m = []" and "material s = None"
  shows "findTargetMaterial s a =
           (s, a\<lparr>console := console a @
                  [''LED screen material not found: '' @ materialName s, ''Available materials:'']
                  @ available_lines (materials a) m\<rparr>)"
  using assms
  by (simp add: findTargetMaterial_def foldl_find_none Let_def logAvailableMaterials_def)

lemma every_material_listed:
  assumes "r \<in> set (mesh_materials m)"
  shows "\<exists>child \<in> set (traverse m). \<exists>i.
           material_line ms child (i, r) \<in> set (available_lines ms m)"
proof -
  from assms obtain child where c: "child \<in> set (traverse m)" "r \<in> set (child_materials child)"
    by (auto simp: mesh_materials_def)
  then obtain i where i: "i < length (child_materials child)" "child_materials child ! i = r"
    by (auto simp: in_set_conv_nth)
  then have "(i, r) \<in> set (enumerate 0 (child_materials child))"
    by (simp add: in_set_enumerate_eq)
  then have "material_line ms child (i, r) \<in> set (child_lines ms child)"
    by (auto simp: child_lines_def)
  with c show ?thesis by (auto simp: available_lines_def)
qed


lemma applyGlobalState_originals:
  "applyGlobalState s a = (s', a') \<Longrightarrow>
     material s' = material s \<and> originalBaseColorTexture s' = originalBaseColorTexture s \<and>
     originalEmissiveTexture s' = originalEmissiveTexture s \<and>
     originalEmissiveIntensity s' = originalEmissiveIntensity s \<and> console a' = console a"
  by (auto simp: applyGlobalState_def Let_def split: option.splits if_splits prod.splits)

lemma ex_app_fields:
  "materials ex_app = ex_materials"
  "disposed ex_app = []"
  "console ex_app = []"
  "scene ex_app = [Gizmo, SpotLight, AmbientLight]"
  "ledScreen ex_app = None"
  "availableStudios ex_app = []"
  "currentStudio ex_app = None"
  "currentStudioMesh ex_app = None"
  "globalCustomTexture ex_app = None"
  "globalCustomEmissiveTexture ex_app = None"
  "globalBrightness ex_app = 1"
  "next_scene_obj ex_app = 0"
  "next_camera ex_app = 0"
  "sceneObjects ex_app = []"
  "cinemaCameras ex_app = []"
  "selectedObject ex_app = None"
  "pinnedCamera ex_app = None"
  "transformControls_visible ex_app = False"
  "transformControls_object ex_app = None"
  "cameraPreviewRenderer ex_app = False"
  "isFullscreen ex_app = False"
  "cameraCounter ex_app = 1"
  by (simp_all add: ex_app_def initial_app_def)

lemma ex_mesh_materials:
  "mesh_materials ex_studio_two = [0, 1, 2]"
  "mesh_materials ex_studio_plain = [0]"
  by (simp_all add: mesh_materials_def ex_studio_two_def ex_studio_plain_def child_materials_def ex_node_def)

lemma ex_matches:
  "matches ex_app ''M_WhiteScreen'' ex_studio_two = [1, 2]"
  "matches ex_app ''M_WhiteScreen'' ex_studio_plain = []"
  by (simp_all add: matches_def ex_mesh_materials ex_app_fields ex_materials_def ex_material_def)

lemma new_LEDScreen_found:
  assumes "matches a nm m \<noteq> []"
  shows "new_LEDScreen (Some m) nm w a =
           applyGlobalState
             (find_step (materials a) (fresh_screen (Some m) nm w) (last (matches a nm m))) a"
proof -
  have "findTargetMaterial (fresh_screen (Some m) nm w) a =
          (find_step (materials a) (fresh_screen (Some m) nm w) (last (matches a nm m)), a)"
    using findTargetMaterial_found[of "fresh_screen (Some m) nm w" m a] assms
    by (simp add: fresh_screen_def)
  then show ?thesis by (simp add: new_LEDScreen_def)
qed

lemma new_LEDScreen_not_found:
  assumes "matches a nm m = []"
  shows "new_LEDScreen (Some m) nm w a =
           (fresh_screen (Some m) nm w,
            a\<lparr>console := console a @
                 [''LED screen material not found: '' @ nm, ''Available materials:'']
                 @ available_lines (materials a) m\<rparr>)"
proof -
  have "findTargetMaterial (fresh_screen (Some m) nm w) a =
          (fresh_screen (Some m) nm w,
           a\<lparr>console := console a @
                 [''LED screen material not found: '' @ nm, ''Available materials:'']
                 @ available_lines (materials a) m\<rparr>)"
    using findTargetMaterial_not_found[of "fresh_screen (Some m) nm w" m a] assms
    by (simp add: fresh_screen_def)
  then show ?thesis by (simp add: new_LEDScreen_def applyGlobalState_def fresh_screen_def)
qed

lemma ex_new_two:
  "new_LEDScreen (Some ex_studio_two) ''M_WhiteScreen'' True ex_app =
     applyGlobalState
       (find_step (materials ex_app) (fresh_screen (Some ex_studio_two) ''M_WhiteScreen'' True) 2)
       ex_app"
  using new_LEDScreen_found[of ex_app "''M_WhiteScreen''" ex_studio_two True]
  by (simp add: ex_matches)

lemma string_of_nat_0: "string_of_nat 0 = ''0''"
  by (simp add: string_of_nat.simps)

lemma ex_app_custom_fields:
  "materials ex_app_custom = ex_materials"
  "globalCustomTexture ex_app_custom = Some 20"
  "globalCustomEmissiveTexture ex_app_custom = Some 20"
  "globalBrightness ex_app_custom = 7 / 10"
  "console ex_app_custom = []"
  "currentStudioMesh ex_app_custom = None"
  "availableStudios ex_app_custom = []"
  "disposed ex_app_custom = []"
  "scene ex_app_custom = [Gizmo, SpotLight, AmbientLight]"
  by (simp_all add: ex_app_custom_def ex_app_fields)


lemma screen_step_keeps:
  assumes "screen_step (s, a) x = (s', a')"
  shows "material s' = material s \<and> originalBaseColorTexture s' = originalBaseColorTexture s \<and>
         originalEmissiveTexture s' = originalEmissiveTexture s \<and>
         originalEmissiveIntensity s' = originalEmissiveIntensity s \<and> has_app s' = has_app s"
  using assms
  by (cases x) (auto simp: setCustomTexture_def setBrightness_def Let_def split: option.splits)

lemma run_screen_ops_keeps:
  assumes "run_screen_ops ops (s, a) = (s', a')"
  shows "material s' = material s \<and> originalBaseColorTexture s' = originalBaseColorTexture s \<and>
         originalEmissiveTexture s' = originalEmissiveTexture s \<and>
         originalEmissiveIntensity s' = originalEmissiveIntensity s \<and> has_app s' = has_app s"
  using assms
proof (induction ops arbitrary: s a)
  case Nil
  then show ?case by (simp add: run_screen_ops_def)
next
  case (Cons x xs)
  obtain s1 a1 where st: "screen_step (s, a) x = (s1, a1)"
    by (cases "screen_step (s, a) x")
  with Cons.prems have "run_screen_ops xs (s1, a1) = (s', a')"
    by (simp add: run_screen_ops_def)
  from Cons.IH[OF this] screen_step_keeps[OF st] show ?case by simp
qed

lemma resetToOriginal_bound:
  assumes "material s = Some r" and "resetToOriginal s a = (s', a')"
  shows "mat_map (materials a' r) = originalBaseColorTexture s \<and>
         emissiveMap (materials a' r) = originalEmissiveTexture s \<and>
         emissiveIntensity (materials a' r) = Some (originalEmissiveIntensity s) \<and>
         currentTexture s' = None \<and> brightness s' = originalEmissiveIntensity s"
  using assms by (auto simp: resetToOriginal_def Let_def)

lemma new_LEDScreen_captures:
  assumes "new_LEDScreen m nm w a0 = (s, a)" and "material s = Some r"
  shows "originalBaseColorTexture s = mat_map (materials a0 r) \<and>
         originalEmissiveTexture s = emissiveMap (materials a0 r) \<and>
         originalEmissiveIntensity s = num_or (emissiveIntensity (materials a0 r)) 1"
proof (cases m)
  case None
  with assms show ?thesis
    by (auto simp: new_LEDScreen_def findTargetMaterial_def fresh_screen_def applyGlobalState_def)
next
  case (Some msh)
  show ?thesis
  proof (cases "matches a0 nm msh = []")
    case True
    with assms Some show ?thesis
      by (auto simp: new_LEDScreen_not_found fresh_screen_def)
  next
    case False
    from assms(1) Some have
      "applyGlobalState (find_step (materials a0) (fresh_screen (Some msh) nm w)
          (last (matches a0 nm msh))) a0 = (s, a)"
      by (simp add: new_LEDScreen_found[OF False])
    from applyGlobalState_originals[OF this] assms(2) last_matches(2)[OF False]
    show ?thesis by (simp add: find_step_def Let_def fresh_screen_def)
  qed
qed

text \<open>
  C8 (as the code has it): binding scans the materials of the mesh in traversal order for
  the exact name. Every match overwrites the one before, so the screen is bound to the
  last match, with that material's map, emissive map and emissive intensity as originals
  (1 when the intensity is absent or zero). With no match nothing is bound, and the console
  receives a warning and one line for every material of the mesh.
\<close>

theorem bind_stores_last_match:
  assumes "new_LEDScreen (Some m) nm with_app a = (s, a')"
  shows "(matches a nm m \<noteq> [] \<longrightarrow>
            material s = Some (last (matches a nm m)) \<and>
            originalBaseColorTexture s = mat_map (materials a (last (matches a nm m))) \<and>
            originalEmissiveTexture s = emissiveMap (materials a (last (matches a nm m))) \<and>
            originalEmissiveIntensity s =
              num_or (emissiveIntensity (materials a (last (matches a nm m)))) 1 \<and>
            console a' = console a)
       \<and> (matches a nm m = [] \<longrightarrow>
            material s = None \<and> a' = a\<lparr>console := console a' \<rparr> \<and>
            console a' = console a @
              [''LED screen material not found: '' @ nm, ''Available materials:''] @
              available_lines (materials a) m \<and>
            (\<forall>r \<in> set (mesh_materials m). \<exists>child \<in> set (traverse m). \<exists>i.
               material_line (materials a) child (i, r) \<in> set (available_lines (materials a) m)))"
proof (cases "matches a nm m = []")
  case True
  have f: "findTargetMaterial (fresh_screen (Some m) nm with_app) a =
           (fresh_screen (Some m) nm with_app,
            a\<lparr>console := console a @
                  [''LED screen material not found: '' @ nm, ''Available materials:'']
                  @ available_lines (materials a) m\<rparr>)"
    using findTargetMaterial_not_found[of "fresh_screen (Some m) nm with_app" m a] True
    by (simp add: fresh_screen_def)
  have "s = fresh_screen (Some m) nm with_app"
    and a': "a' = a\<lparr>console := console a @
                  [''LED screen material not found: '' @ nm, ''Available materials:'']
                  @ available_lines (materials a) m\<rparr>"
    using assms f by (simp_all add: new_LEDScreen_def applyGlobalState_def fresh_screen_def)
  then show ?thesis
    using True every_material_listed[of _ m "materials a"] by (simp add: fresh_screen_def)
next
  case False
  have f: "findTargetMaterial (fresh_screen (Some m) nm with_app) a =
           (find_step (materials a) (fresh_screen (Some m) nm with_app) (last (matches a nm m)), a)"
    using findTargetMaterial_found[of "fresh_screen (Some m) nm with_app" m a] False
    by (simp add: fresh_screen_def)
  have nm: "mat_name (materials a (last (matches a nm m))) = nm"
    using last_matches(2)[OF False] .
  from assms f have
    "applyGlobalState
       (find_step (materials a) (fresh_screen (Some m) nm with_app) (last (matches a nm m))) a
     = (s, a')"
    by (simp add: new_LEDScreen_def)
  from applyGlobalState_originals[OF this] nm False show ?thesis
    by (simp add: find_step_def Let_def fresh_screen_def)
qed

theorem bind_stores_last_match_witness:
  "matches ex_app ''M_WhiteScreen'' ex_studio_two \<noteq> [] \<and>
   material (fst (new_LEDScreen (Some ex_studio_two) ''M_WhiteScreen'' True ex_app)) = Some 2 \<and>
   originalEmissiveIntensity (fst (new_LEDScreen (Some ex_studio_two) ''M_WhiteScreen'' True ex_app)) = 1 \<and>
   matches ex_app ''M_WhiteScreen'' ex_studio_plain = [] \<and>
   material (fst (new_LEDScreen (Some ex_studio_plain) ''M_WhiteScreen'' True ex_app)) = None \<and>
   console (snd (new_LEDScreen (Some ex_studio_plain) ''M_WhiteScreen'' True ex_app)) =
     [''LED screen material not found: M_WhiteScreen'', ''Available materials:'',
      ''- M_Wall (Wall_0)'']"
proof -
  have lines: "available_lines ex_materials ex_studio_plain = [''- M_Wall (Wall_0)'']"
    by (simp add: available_lines_def child_lines_def child_materials_def material_line_def
          str_or_def ex_studio_plain_def ex_node_def ex_materials_def ex_material_def
          string_of_nat_0)
  show ?thesis
    using bind_stores_last_match[where m=ex_studio_two and nm="''M_WhiteScreen''" and a = ex_app
            and with_app=True, OF prod.collapse[symmetric]]
          bind_stores_last_match[where m=ex_studio_plain and nm="''M_WhiteScreen''" and a = ex_app
            and with_app=True, OF prod.collapse[symmetric]]
    by (simp add: ex_matches ex_app_fields lines ex_materials_def ex_material_def num_or_def)
qed

text \<open>With two materials of the searched name the screen is bound to the second, whose
  map (13) becomes the original; the first match is material 1 with map 11.\<close>

theorem bind_first_match_counterexample:
  "hd (matches ex_app ''M_WhiteScreen'' ex_studio_two) = 1 \<and>
   material (fst (new_LEDScreen (Some ex_studio_two) ''M_WhiteScreen'' True ex_app)) = Some 2 \<and>
   originalBaseColorTexture (fst (new_LEDScreen (Some ex_studio_two) ''M_WhiteScreen'' True ex_app)) = Some 13"
  unfolding ex_new_two
  by (simp add: ex_matches find_step_def applyGlobalState_def Let_def
        fresh_screen_def ex_app_fields ex_materials_def ex_material_def)

text \<open>
  C9: on a screen with no material bound, \<^verbatim>\<open>setBrightness\<close>, \<^verbatim>\<open>resetToOriginal\<close> and
  \<^verbatim>\<open>setCustomTexture\<close> return normally and change neither the screen nor the application;
  \<^verbatim>\<open>setCustomTexture\<close> writes its warning to the console.
\<close>

theorem unbound_screen_noop:
  "material s = None \<Longrightarrow>
     setBrightness x s a = (s, a) \<and>
     resetToOriginal s a = (s, a) \<and>
     setCustomTexture loaded s a =
       (s, a\<lparr>console := console a @ [''No material found to apply texture'']\<rparr>)"
  by (simp add: setBrightness_def resetToOriginal_def setCustomTexture_def)

theorem unbound_screen_noop_witness:
  "material (fresh_screen (Some ex_studio_plain) ''M_WhiteScreen'' True) = None \<and>
   setBrightness (1 / 2) (fresh_screen (Some ex_studio_plain) ''M_WhiteScreen'' True) ex_app =
     (fresh_screen (Some ex_studio_plain) ''M_WhiteScreen'' True, ex_app) \<and>
   resetToOriginal (fresh_screen (Some ex_studio_plain) ''M_WhiteScreen'' True) ex_app =
     (fresh_screen (Some ex_studio_plain) ''M_WhiteScreen'' True, ex_app)"
  using unbound_screen_noop[of "fresh_screen (Some ex_studio_plain) ''M_WhiteScreen'' True"
          "1 / 2" ex_app None]
  by (simp add: fresh_screen_def)

text \<open>
  C10: the constructor of a screen built with the application and finding a matching
  material sets that material's emissive intensity to the global brightness at once, and
  a global custom texture, when there is one, goes into both the diffuse and the emissive
  slot.
\<close>

theorem constructor_applies_global_state:
  assumes "matches a nm m \<noteq> []"
    and "globalCustomEmissiveTexture a = globalCustomTexture a"
    and "new_LEDScreen (Some m) nm True a = (s, a')"
  shows "\<exists>r. material s = Some r \<and> r \<in> set (mesh_materials m) \<and>
             mat_name (materials a r) = nm \<and>
             emissiveIntensity (materials a' r) = Some (globalBrightness a) \<and>
             brightness s = globalBrightness a \<and>
             (\<forall>t. globalCustomTexture a = Some t \<longrightarrow>
                  mat_map (materials a' r) = Some t \<and> emissiveMap (materials a' r) = Some t \<and>
                  currentTexture s = Some t)"
proof -
  let ?r = "last (matches a nm m)"
  have nm: "mat_name (materials a ?r) = nm" and mem: "?r \<in> set (mesh_materials m)"
    using last_matches[OF assms(1)] by simp_all
  have "applyGlobalState (find_step (materials a) (fresh_screen (Some m) nm True) ?r) a = (s, a')"
    using assms(3) new_LEDScreen_found[OF assms(1), of True] by simp
  then have "material s = Some ?r \<and>
             emissiveIntensity (materials a' ?r) = Some (globalBrightness a) \<and>
             brightness s = globalBrightness a \<and>
             (\<forall>t. globalCustomTexture a = Some t \<longrightarrow>
                  mat_map (materials a' ?r) = Some t \<and> emissiveMap (materials a' ?r) = Some t \<and>
                  currentTexture s = Some t)"
    using nm assms(2)
    by (auto simp: applyGlobalState_def find_step_def fresh_screen_def Let_def
             split: option.splits)
  with nm mem show ?thesis by blast
qed

theorem constructor_applies_global_state_witness:
  "matches ex_app_custom ''M_WhiteScreen'' ex_studio_next \<noteq> [] \<and>
   globalCustomEmissiveTexture ex_app_custom = globalCustomTexture ex_app_custom \<and>
   (\<exists>r. material (fst (new_LEDScreen (Some ex_studio_next) ''M_WhiteScreen'' True ex_app_custom)) = Some r \<and>
        emissiveIntensity
          (materials (snd (new_LEDScreen (Some ex_studio_next) ''M_WhiteScreen'' True ex_app_custom)) r)
          = Some (7 / 10) \<and>
        mat_map
          (materials (snd (new_LEDScreen (Some ex_studio_next) ''M_WhiteScreen'' True ex_app_custom)) r)
          = Some 20 \<and>
        emissiveMap
          (materials (snd (new_LEDScreen (Some ex_studio_next) ''M_WhiteScreen'' True ex_app_custom)) r)
          = Some 20)"
proof -
  have m: "matches ex_app_custom ''M_WhiteScreen'' ex_studio_next = [3]"
    by (simp add: matches_def mesh_materials_def ex_studio_next_def child_materials_def ex_node_def
          ex_app_custom_fields ex_materials_def ex_material_def)
  have g: "globalCustomEmissiveTexture ex_app_custom = globalCustomTexture ex_app_custom"
    by (simp add: ex_app_custom_fields)
  show ?thesis
    using constructor_applies_global_state[where m=ex_studio_next and nm="''M_WhiteScreen''"
            and a=ex_app_custom, OF _ g prod.collapse[symmetric]] m
    by (auto simp: ex_app_custom_fields)
qed

section \<open>Resetting a screen\<close>

text \<open>
  C4: after any sequence of texture and brightness calls on a bound screen,
  \<^verbatim>\<open>resetToOriginal\<close> puts back the map, the emissive map and the emissive intensity
  captured when the screen was bound, and clears the current texture.
\<close>

theorem reset_round_trip:
  assumes "new_LEDScreen m nm w a0 = (s, a)" and "material s = Some r"
    and "run_screen_ops ops (s, a) = (s1, a1)"
    and "resetToOriginal s1 a1 = (s2, a2)"
  shows "mat_map (materials a2 r) = mat_map (materials a0 r) \<and>
         emissiveMap (materials a2 r) = emissiveMap (materials a0 r) \<and>
         emissiveIntensity (materials a2 r) = Some (num_or (emissiveIntensity (materials a0 r)) 1) \<and>
         mat_map (materials a2 r) = originalBaseColorTexture s \<and>
         emissiveMap (materials a2 r) = originalEmissiveTexture s \<and>
         emissiveIntensity (materials a2 r) = Some (originalEmissiveIntensity s) \<and>
         currentTexture s2 = None"
proof -
  from run_screen_ops_keeps[OF assms(3)] assms(2) have k: "material s1 = Some r"
    "originalBaseColorTexture s1 = originalBaseColorTexture s"
    "originalEmissiveTexture s1 = originalEmissiveTexture s"
    "originalEmissiveIntensity s1 = originalEmissiveIntensity s"
    by simp_all
  from resetToOriginal_bound[OF k(1) assms(4)] k new_LEDScreen_captures[OF assms(1,2)]
  show ?thesis by simp
qed

lemma ex_new_next:
  "new_LEDScreen (Some ex_studio_next) ''M_WhiteScreen'' True ex_app =
     ((find_step ex_materials (fresh_screen (Some ex_studio_next) ''M_WhiteScreen'' True) 3)
        \<lparr>brightness := 1\<rparr>,
      ex_app\<lparr>materials := ex_materials(3 := (ex_materials 3)\<lparr>emissiveIntensity := Some 1,
                                                          needsUpdate := True\<rparr>)\<rparr>)"
proof -
  have m: "matches ex_app ''M_WhiteScreen'' ex_studio_next = [3]"
    by (simp add: matches_def mesh_materials_def ex_studio_next_def child_materials_def ex_node_def
          ex_app_fields ex_materials_def ex_material_def)
  show ?thesis
    using new_LEDScreen_found[of ex_app "''M_WhiteScreen''" ex_studio_next True]
    by (simp add: m applyGlobalState_def find_step_def fresh_screen_def Let_def ex_app_fields
          ex_materials_def ex_material_def)
qed

theorem reset_round_trip_witness:
  "material (fst (new_LEDScreen (Some ex_studio_next) ''M_WhiteScreen'' True ex_app)) = Some 3 \<and>
   mat_map (materials (snd (run_screen_ops [SetCustomTexture (Some 20), SetBrightness (1 / 2)]
      (new_LEDScreen (Some ex_studio_next) ''M_WhiteScreen'' True ex_app))) 3) = Some 20 \<and>
   mat_map (materials (snd (case run_screen_ops [SetCustomTexture (Some 20), SetBrightness (1 / 2)]
      (new_LEDScreen (Some ex_studio_next) ''M_WhiteScreen'' True ex_app) of
        (s1, a1) \<Rightarrow> resetToOriginal s1 a1)) 3) = Some 15 \<and>
   emissiveIntensity (materials (snd (case run_screen_ops [SetCustomTexture (Some 20), SetBrightness (1 / 2)]
      (new_LEDScreen (Some ex_studio_next) ''M_WhiteScreen'' True ex_app) of
        (s1, a1) \<Rightarrow> resetToOriginal s1 a1)) 3) = Some 3"
proof -
  let ?b = "new_LEDScreen (Some ex_studio_next) ''M_WhiteScreen'' True ex_app"
  let ?o = "run_screen_ops [SetCustomTexture (Some 20), SetBrightness (1 / 2)] (fst ?b, snd ?b)"
  let ?r = "resetToOriginal (fst ?o) (snd ?o)"
  have b: "material (fst ?b) = Some 3"
    by (simp add: ex_new_next find_step_def Let_def ex_materials_def ex_material_def fresh_screen_def)
  have r: "(case run_screen_ops [SetCustomTexture (Some 20), SetBrightness (1 / 2)] ?b of
             (s1, a1) \<Rightarrow> resetToOriginal s1 a1) = ?r"
    by (simp add: case_prod_beta)
  have t: "mat_map (materials (snd (run_screen_ops [SetCustomTexture (Some 20), SetBrightness (1 / 2)] ?b)) 3)
           = Some 20"
    by (simp add: ex_new_next run_screen_ops_def setCustomTexture_def setBrightness_def Let_def
          find_step_def ex_materials_def ex_material_def fresh_screen_def)
  from reset_round_trip[where m="Some ex_studio_next" and nm="''M_WhiteScreen''" and w=True
         and ?a0.0=ex_app and ops="[SetCustomTexture (Some 20), SetBrightness (1 / 2)]"
         and r=3, OF prod.collapse[symmetric] b prod.collapse[symmetric] prod.collapse[symmetric]]
  show ?thesis
    unfolding r using b t
    by (simp add: ex_app_fields ex_materials_def ex_material_def num_or_def)
qed

section \<open>Switching studios\<close>

lemma traverse_map_nodes: "traverse (map_nodes f t) = map f (traverse t)"
  by (induction f t rule: map_nodes.induct) (simp add: map_concat comp_def cong: map_cong)

lemma root_map_nodes: "root (map_nodes f t) = f (root t)"
  by (cases t) simp

lemma mesh_materials_map_nodes:
  assumes "\<And>n. isMesh (f n) = isMesh n" and "\<And>n. node_material (f n) = node_material n"
  shows "mesh_materials (map_nodes f t) = mesh_materials t"
proof -
  have "child_materials \<circ> f = child_materials"
    by (rule ext) (simp add: child_materials_def assms)
  then show ?thesis
    by (simp add: mesh_materials_def traverse_map_nodes)
qed

lemma loadStudioMesh_Inr:
  assumes "loadStudioMesh gltf = Inr new"
  shows "\<exists>m. gltf = Inr m \<and> mesh_materials new = mesh_materials m \<and>
             obj_id (root new) = obj_id (root m)"
proof (cases gltf)
  case (Inl e)
  with assms show ?thesis by (simp add: loadStudioMesh_def)
next
  case (Inr m)
  with assms have n: "new = map_nodes studio_shadows m"
    by (simp add: loadStudioMesh_def)
  have "mesh_materials new = mesh_materials m"
    unfolding n by (rule mesh_materials_map_nodes) (simp_all add: studio_shadows_def)
  moreover have "obj_id (root new) = obj_id (root m)"
    unfolding n by (simp add: root_map_nodes studio_shadows_def)
  ultimately show ?thesis using Inr by simp
qed

lemma remove_current_studio_fields:
  "materials (remove_current_studio a) = materials a"
  "textures (remove_current_studio a) = textures a"
  "console (remove_current_studio a) = console a"
  "ledScreen (remove_current_studio a) = ledScreen a"
  "availableStudios (remove_current_studio a) = availableStudios a"
  "currentStudio (remove_current_studio a) = currentStudio a"
  "currentStudioMesh (remove_current_studio a) = currentStudioMesh a"
  "globalCustomTexture (remove_current_studio a) = globalCustomTexture a"
  "globalCustomEmissiveTexture (remove_current_studio a) = globalCustomEmissiveTexture a"
  "globalBrightness (remove_current_studio a) = globalBrightness a"
  "sceneObjects (remove_current_studio a) = sceneObjects a"
  "cinemaCameras (remove_current_studio a) = cinemaCameras a"
  "scene_objs (remove_current_studio a) = scene_objs a"
  "cameras (remove_current_studio a) = cameras a"
  "selectedObject (remove_current_studio a) = selectedObject a"
  "pinnedCamera (remove_current_studio a) = pinnedCamera a"
  "next_camera (remove_current_studio a) = next_camera a"
  "next_scene_obj (remove_current_studio a) = next_scene_obj a"
  by (simp_all add: remove_current_studio_def disposeStudioMesh_def split: option.splits)

lemma switchStudio_loaded:
  assumes "getStudioByName a nm = Some st" and "loadStudioMesh gltf = Inr new"
  shows "switchStudio nm False gltf a =
           (Some \<lparr>success = True, result_mesh = new, result_screenState = None\<rparr>,
            (remove_current_studio a)\<lparr>scene := scene_add (MeshRoot (obj_id (root new))) (scene (remove_current_studio a)),
                            currentStudioMesh := Some new, currentStudio := Some st\<rparr>)"
  using assms by (simp add: switchStudio_def Let_def)

lemma switchStudio_failed:
  assumes "getStudioByName a nm = Some st" and "loadStudioMesh gltf = Inl err"
  shows "switchStudio nm preserve gltf a =
           (None, (remove_current_studio a)\<lparr>console := console a @ [''Error switching studio: '' @ err]\<rparr>)"
  using assms by (simp add: switchStudio_def Let_def remove_current_studio_fields)


lemma disposed_remove_current_studio:
  "currentStudioMesh a = Some old \<Longrightarrow>
   disposed (remove_current_studio a) =
     disposed a @ concat (map (dispose_studio_child (materials a)) (traverse old))"
  by (simp add: remove_current_studio_def disposeStudioMesh_def)

lemma scene_remove_current_studio:
  "currentStudioMesh a = Some old \<Longrightarrow>
   scene (remove_current_studio a) = scene_remove (MeshRoot (obj_id (root old))) (scene a)"
  by (simp add: remove_current_studio_def disposeStudioMesh_def)





lemma loadStudioMesh_Inr_eq: "loadStudioMesh (Inr m) = Inr (map_nodes studio_shadows m)"
  by (simp add: loadStudioMesh_def)

lemma mesh_materials_shadows [simp]:
  "mesh_materials (map_nodes studio_shadows m) = mesh_materials m"
  by (rule mesh_materials_map_nodes) (simp_all add: studio_shadows_def)

lemma matches_shadows [simp]:
  "matches a nm (map_nodes studio_shadows m) = matches a nm m"
  by (simp add: matches_def)

lemma ex_getStudio:
  "getStudioByName (a\<lparr>availableStudios := [ex_madrid, ex_barcelona]\<rparr>) ''MADRID_15X5'' = Some ex_madrid"
  "getStudioByName (a\<lparr>availableStudios := [ex_madrid, ex_barcelona]\<rparr>) ''BARCELONA'' = Some ex_barcelona"
  by (simp_all add: getStudioByName_def ex_madrid_def ex_barcelona_def)

lemma ex_app_madrid_eq:
  "ex_app_madrid =
     ex_app\<lparr>availableStudios := [ex_madrid, ex_barcelona],
            scene := [Gizmo, SpotLight, AmbientLight, MeshRoot 100],
            currentStudioMesh := Some (map_nodes studio_shadows ex_studio_two),
            currentStudio := Some ex_madrid,
            materials := ex_materials(2 := (ex_materials 2)\<lparr>emissiveIntensity := Some 1,
                                                          needsUpdate := True\<rparr>),
            ledScreen := Some ((find_step ex_materials
               (fresh_screen (Some (map_nodes studio_shadows ex_studio_two)) ''M_WhiteScreen'' True) 2)
               \<lparr>brightness := 1\<rparr>),
            globalBrightness := 1\<rparr>"
proof -
  let ?a = "ex_app\<lparr>availableStudios := [ex_madrid, ex_barcelona]\<rparr>"
  let ?a2 = "(remove_current_studio ?a)\<lparr>scene := scene_add (MeshRoot (obj_id (root (map_nodes studio_shadows ex_studio_two))))
                  (scene (remove_current_studio ?a)),
                currentStudioMesh := Some (map_nodes studio_shadows ex_studio_two), currentStudio := Some ex_madrid\<rparr>"
  have sw: "switchStudio ''MADRID_15X5'' False (Inr ex_studio_two) ?a =
              (Some \<lparr>success = True, result_mesh = map_nodes studio_shadows ex_studio_two,
                     result_screenState = None\<rparr>, ?a2)"
    by (rule switchStudio_loaded[OF ex_getStudio(1) loadStudioMesh_Inr_eq])
  have a2: "?a2 = ex_app\<lparr>availableStudios := [ex_madrid, ex_barcelona],
            scene := [Gizmo, SpotLight, AmbientLight, MeshRoot 100],
            currentStudioMesh := Some (map_nodes studio_shadows ex_studio_two),
            currentStudio := Some ex_madrid\<rparr>"
    by (simp add: remove_current_studio_def ex_app_fields scene_add_def root_map_nodes
          ex_studio_two_def studio_shadows_def ex_node_def)
  have m: "matches ?a2 ''M_WhiteScreen'' (map_nodes studio_shadows ex_studio_two) = [1, 2]"
    unfolding a2 using ex_matches(1) by (simp add: matches_def ex_app_fields)
  have new: "new_LEDScreen (Some (map_nodes studio_shadows ex_studio_two)) ''M_WhiteScreen'' True ?a2 =
     applyGlobalState (find_step (materials ?a2)
       (fresh_screen (Some (map_nodes studio_shadows ex_studio_two)) ''M_WhiteScreen'' True) 2) ?a2"
    using new_LEDScreen_found[of ?a2 "''M_WhiteScreen''" "map_nodes studio_shadows ex_studio_two" True]
    by (simp only: m) simp
  show ?thesis
    unfolding ex_app_madrid_def step.simps initializeStudioManager_def sw Let_def prod.case
      option.case switch_result.simps new
    unfolding a2
    by (simp add: applyGlobalState_def find_step_def fresh_screen_def Let_def ex_app_fields
          ex_materials_def ex_material_def num_or_def)
qed


lemma ex_app_madrid_fields:
  "availableStudios ex_app_madrid = [ex_madrid, ex_barcelona]"
  "scene ex_app_madrid = [Gizmo, SpotLight, AmbientLight, MeshRoot 100]"
  "currentStudioMesh ex_app_madrid = Some (map_nodes studio_shadows ex_studio_two)"
  "currentStudio ex_app_madrid = Some ex_madrid"
  "materials ex_app_madrid = ex_materials(2 := (ex_materials 2)\<lparr>emissiveIntensity := Some 1,
                                                          needsUpdate := True\<rparr>)"
  "ledScreen ex_app_madrid = Some ((find_step ex_materials
               (fresh_screen (Some (map_nodes studio_shadows ex_studio_two)) ''M_WhiteScreen'' True) 2)
               \<lparr>brightness := 1\<rparr>)"
  "globalBrightness ex_app_madrid = 1"
  "globalCustomTexture ex_app_madrid = None"
  "globalCustomEmissiveTexture ex_app_madrid = None"
  "disposed ex_app_madrid = []"
  "console ex_app_madrid = []"
  by (simp_all add: ex_app_madrid_eq ex_app_fields)




text \<open>
  C6 (as the code has it): when the load of a studio fails, \<^verbatim>\<open>switchStudio\<close> returns
  \<^verbatim>\<open>false\<close> and logs the error; nothing is added to the scene and the current-studio fields
  keep their values, but the previous studio mesh has already been taken out of the scene
  and disposed. A failed model load changes nothing but the console.
\<close>

theorem failed_load_aborts:
  assumes "getStudioByName a nm = Some st"
    and "switchStudio nm preserve (Inl err) a = (res, a')"
  shows "res = None \<and>
         console a' = console a @ [''Error switching studio: '' @ err] \<and>
         currentStudio a' = currentStudio a \<and> currentStudioMesh a' = currentStudioMesh a \<and>
         materials a' = materials a \<and> ledScreen a' = ledScreen a \<and>
         set (scene a') \<subseteq> set (scene a) \<and>
         (case currentStudioMesh a of
            None \<Rightarrow> scene a' = scene a \<and> disposed a' = disposed a
          | Some old \<Rightarrow>
              scene a' = scene_remove (MeshRoot (obj_id (root old))) (scene a) \<and>
              disposed a' =
                disposed a @ concat (map (dispose_studio_child (materials a)) (traverse old))) \<and>
         loadGLTFModel (Inl err) model_name ident a =
           a\<lparr>console := console a @ [''Error loading model: '' @ err]\<rparr>"
proof -
  have "loadStudioMesh (Inl err) = Inl err"
    by (simp add: loadStudioMesh_def)
  from switchStudio_failed[OF assms(1) this, of preserve] assms(2)
  have res: "res = None"
    and a': "a' = (remove_current_studio a)\<lparr>console := console a @ [''Error switching studio: '' @ err]\<rparr>"
    by simp_all
  have sc: "set (scene (remove_current_studio a)) \<subseteq> set (scene a)"
    using set_remove1_subset[of _ "scene a"]
    by (auto simp: remove_current_studio_def disposeStudioMesh_def scene_remove_def
             split: option.splits)
  have cs: "case currentStudioMesh a of
            None \<Rightarrow> scene a' = scene a \<and> disposed a' = disposed a
          | Some old \<Rightarrow>
              scene a' = scene_remove (MeshRoot (obj_id (root old))) (scene a) \<and>
              disposed a' =
                disposed a @ concat (map (dispose_studio_child (materials a)) (traverse old))"
    unfolding a' by (simp add: remove_current_studio_def disposeStudioMesh_def split: option.splits)
  from res cs sc show ?thesis
    unfolding a' by (simp add: remove_current_studio_fields loadGLTFModel_def)
qed


lemma ex_traverse_two:
  "traverse (map_nodes studio_shadows ex_studio_two) =
     [ex_node 100 ''Madrid'' False NoMaterial,
      (ex_node 101 ''Wall'' True (Single 0))\<lparr>castShadow := False, receiveShadow := True\<rparr>,
      (ex_node 102 ''ScreenA'' True (Single 1))\<lparr>castShadow := False, receiveShadow := True\<rparr>,
      (ex_node 103 ''ScreenB'' True (Single 2))\<lparr>castShadow := False, receiveShadow := True\<rparr>]"
  by (simp add: ex_studio_two_def studio_shadows_def ex_node_def)





lemma ex_getStudio_madrid:
  "getStudioByName ex_app_madrid ''BARCELONA'' = Some ex_barcelona"
  by (simp add: getStudioByName_def ex_app_madrid_fields ex_madrid_def ex_barcelona_def)

lemma ex_root_two: "obj_id (root (map_nodes studio_shadows ex_studio_two)) = 100"
  by (simp add: root_map_nodes ex_studio_two_def studio_shadows_def ex_node_def)

text \<open>With Madrid loaded, a switch to Barcelona whose load fails leaves the scene without
  any studio mesh, and Madrid's geometries and materials disposed.\<close>

theorem failed_load_removes_studio_counterexample:
  "MeshRoot 100 \<in> set (scene ex_app_madrid) \<and>
   scene (step (StudioChange ''BARCELONA'' (Inl ''network error'')) ex_app_madrid) =
     [Gizmo, SpotLight, AmbientLight] \<and>
   disposed ex_app_madrid = [] \<and>
   disposed (step (StudioChange ''BARCELONA'' (Inl ''network error'')) ex_app_madrid) =
     [Geometry 101, Texture 10, Material 0, Geometry 102, Material 1, Geometry 103, Material 2]"
proof -
  have l: "loadStudioMesh (Inl ''network error'') = Inl ''network error''"
    by (simp add: loadStudioMesh_def)
  have d: "concat (map (dispose_studio_child (materials ex_app_madrid))
     (traverse (map_nodes studio_shadows ex_studio_two))) =
   [Geometry 101, Texture 10, Material 0, Geometry 102, Material 1, Geometry 103, Material 2]"
    by (simp add: ex_traverse_two dispose_studio_child_def dispose_studio_material_def
        material_textures_def texture_slot_def ex_node_def ex_app_madrid_fields
        ex_materials_def ex_material_def)
  have s: "scene (remove_current_studio ex_app_madrid) = [Gizmo, SpotLight, AmbientLight]"
    using scene_remove_current_studio[OF ex_app_madrid_fields(3)]
    by (simp add: ex_root_two ex_app_madrid_fields scene_remove_def)
  have e: "step (StudioChange ''BARCELONA'' (Inl ''network error'')) ex_app_madrid =
        (remove_current_studio ex_app_madrid)
          \<lparr>console := console ex_app_madrid @ [''Error switching studio: network error''],
           console := (console ex_app_madrid @ [''Error switching studio: network error''])
              @ [''Failed to change studio'']\<rparr>"
    by (simp add: onStudioChange_def switchStudio_failed[OF ex_getStudio_madrid l])
  have dd: "disposed (remove_current_studio ex_app_madrid) =
     [Geometry 101, Texture 10, Material 0, Geometry 102, Material 1, Geometry 103, Material 2]"
    using disposed_remove_current_studio[OF ex_app_madrid_fields(3)]
    unfolding d by (simp add: ex_app_madrid_fields(10))
  show ?thesis
    unfolding e by (simp add: s dd ex_app_madrid_fields(2,10))
qed

theorem failed_load_aborts_witness:
  "getStudioByName ex_app_madrid ''BARCELONA'' = Some ex_barcelona \<and>
   fst (switchStudio ''BARCELONA'' False (Inl ''network error'') ex_app_madrid) = None \<and>
   console (snd (switchStudio ''BARCELONA'' False (Inl ''network error'') ex_app_madrid)) =
     [''Error switching studio: network error''] \<and>
   currentStudioMesh (snd (switchStudio ''BARCELONA'' False (Inl ''network error'') ex_app_madrid)) =
     Some (map_nodes studio_shadows ex_studio_two) \<and>
   scene (snd (switchStudio ''BARCELONA'' False (Inl ''network error'') ex_app_madrid)) =
     [Gizmo, SpotLight, AmbientLight]"
  using failed_load_aborts[OF ex_getStudio_madrid prod.collapse[symmetric],
          of False "''network error''"]
  by (simp add: ex_getStudio_madrid ex_app_madrid_fields scene_remove_def ex_root_two)

section \<open>Field of view\<close>















lemma num_nonneg: "0 \<le> x \<Longrightarrow> num x = Fin False x"
  by (simp add: num_def)






































lemma new_CinemaCamera_fields:
  "focalLength (new_CinemaCamera nm ident) = num 50"
  "sensorSize (new_CinemaCamera nm ident) = num 24"
  "cam_isSelected (new_CinemaCamera nm ident) = False"
  "helper_visible (new_CinemaCamera nm ident) = False"
  "mesh_visible (new_CinemaCamera nm ident) = True"
  "cam_id (new_CinemaCamera nm ident) = ident"
  by (simp_all add: new_CinemaCamera_def updateCameraSettings_def)






section \<open>Brightness after start-up\<close>








lemma brightness_slider_sets_global:
  assumes "ledScreen a = Some s" and "material s = Some r" and "has_app s"
  shows "globalBrightness (step (BrightnessSlider b) a) = b \<and>
         map_option brightness (ledScreen (step (BrightnessSlider b) a)) = Some b \<and>
         emissiveIntensity (materials (step (BrightnessSlider b) a) r) = Some b"
  using assms by (simp add: on_screen_def setBrightness_def Let_def)

subsection \<open>A texture shared between the screen material and a wall material\<close>


lemma screen_controls_keep:
  "disposed (step (UploadTexture l) a) = disposed a"
  "normalMap (materials (step (UploadTexture l) a) x) = normalMap (materials a x)"
  "disposed (step (BrightnessSlider b) a) = disposed a"
  "normalMap (materials (step (BrightnessSlider b) a) x) = normalMap (materials a x)"
  "mat_name (materials (step (BrightnessSlider b) a) x) = mat_name (materials a x)"
  "mat_map (materials (step (BrightnessSlider b) a) x) = mat_map (materials a x)"
  "emissiveMap (materials (step (BrightnessSlider b) a) x) = emissiveMap (materials a x)"
  "globalCustomTexture (step (BrightnessSlider b) a) = globalCustomTexture a"
  "globalCustomEmissiveTexture (step (BrightnessSlider b) a) = globalCustomEmissiveTexture a"
  "availableStudios (step (BrightnessSlider b) a) = availableStudios a"
  "currentStudioMesh (step (BrightnessSlider b) a) = currentStudioMesh a"
  "map_option material (ledScreen (step (BrightnessSlider b) a)) = map_option material (ledScreen a)"
  "map_option currentTexture (ledScreen (step (BrightnessSlider b) a)) =
     map_option currentTexture (ledScreen a)"
  by (simp_all add: on_screen_def setCustomTexture_def setBrightness_def Let_def
        split: option.splits)









section \<open>Selecting and deselecting a placed object\<close>

lemma ex_materials_5_6:
  "emissive (ex_materials 5) = None"
  "emissive (ex_materials 6) = Some 0x112233"
  "emissiveIntensity (ex_materials 6) = Some 1"
  "emissiveIntensity (ex_materials 5) = None"
  by (simp_all add: ex_materials_def ex_material_def)

lemma ex_car_traverse:
  "traverse (so_mesh ex_car) =
     [(ex_node 200 ''Car'' False NoMaterial),
      (ex_node 201 ''Glass'' True (Single 5))
        \<lparr>castShadow := True, receiveShadow := True,
         userData_originalEmissive := Some 0, userData_originalEmissiveIntensity := Some 0\<rparr>,
      (ex_node 202 ''Body'' True (Single 6))
        \<lparr>castShadow := True, receiveShadow := True,
         userData_originalEmissive := Some 0x112233, userData_originalEmissiveIntensity := Some 1\<rparr>]"
  by (simp add: ex_car_def new_SceneObject_def storeOriginalMaterials_def traverse_map_nodes
        ex_prop_def model_shadows_def store_original_def ex_node_def slot_emissive_def
        slot_emissiveIntensity_def ex_app_fields ex_materials_5_6 num_or_def)

lemma ex_car_selected: "so_isSelected ex_car = False"
  by (simp add: ex_car_def new_SceneObject_def)

lemma ex_car_select:
  "SceneObject_select ex_car ex_app =
     (ex_car\<lparr>so_isSelected := True\<rparr>,
      ex_app\<lparr>materials := ex_materials
         (5 := (ex_materials 5)\<lparr>needsUpdate := True\<rparr>,
          6 := (ex_materials 6)\<lparr>emissive := Some 0x333333, emissiveIntensity := Some 0.3,
                                   needsUpdate := True\<rparr>)\<rparr>)"
  by (simp add: SceneObject_select_def ex_car_selected ex_car_traverse highlight_child_def
        ex_node_def ex_app_fields ex_materials_5_6)

text \<open>
  C5: \<^verbatim>\<open>select()\<close> followed by \<^verbatim>\<open>deselect()\<close> on a placed object whose first child has a
  material without an emissive channel: \<^verbatim>\<open>deselect()\<close> throws at that child, and the second
  child, which \<^verbatim>\<open>select()\<close> highlighted, keeps the highlight colour and intensity instead
  of its own.
\<close>

theorem deselect_throws_on_unlit_child:
  "emissive (materials ex_app 6) = Some 0x112233 \<and>
   emissiveIntensity (materials ex_app 6) = Some 1 \<and>
   fst (SceneObject_deselect (fst (SceneObject_select ex_car ex_app))
          (snd (SceneObject_select ex_car ex_app))) = Thrown TypeError \<and>
   so_isSelected (fst (run_sel_calls [Select, Deselect] (ex_car, ex_app))) = False \<and>
   emissive (materials (snd (run_sel_calls [Select, Deselect] (ex_car, ex_app))) 6) = Some 0x333333 \<and>
   emissiveIntensity (materials (snd (run_sel_calls [Select, Deselect] (ex_car, ex_app))) 6)
     = Some 0.3"
  by (simp add: run_sel_calls_def ex_car_select SceneObject_deselect_def ex_car_traverse
        restore_child_def ex_node_def ex_app_fields ex_materials_5_6)


text \<open>In the procedural variant, a model whose two children share one material: the second
  child stores the highlight as its original, and \<^verbatim>\<open>deselectModel\<close> leaves the material
  highlighted.\<close>

lemma ex_chair_legacy:
  "fst (selectModel ex_prop_shared ex_legacy) = Returned \<and>
   fst (deselectModel (snd (selectModel ex_prop_shared ex_legacy))) = Returned \<and>
   emissive (lg_materials ex_legacy 6) = Some 0x112233 \<and>
   emissive (lg_materials (snd (deselectModel (snd (selectModel ex_prop_shared ex_legacy)))) 6)
     = Some 0x333333 \<and>
   emissiveIntensity
     (lg_materials (snd (deselectModel (snd (selectModel ex_prop_shared ex_legacy)))) 6) = Some 0.3"
  by (simp add: selectModel_def deselectModel_def ex_legacy_def ex_prop_shared_def Let_def
        highlight_child_def store_original_def restore_child_def ex_node_def slot_emissive_def
        slot_emissiveIntensity_def ex_materials_5_6 num_or_def)

lemma select_deselect_idempotent:
  "so_isSelected so \<Longrightarrow> SceneObject_select so a = (so, a)"
  "\<not> so_isSelected so \<Longrightarrow> SceneObject_deselect so a = (Returned, so, a)"
  "SceneObject_select (fst (SceneObject_select so a)) (snd (SceneObject_select so a)) =
     SceneObject_select so a"
  "snd (SceneObject_deselect (fst (snd (SceneObject_deselect so a)))
          (snd (snd (SceneObject_deselect so a)))) = snd (SceneObject_deselect so a)"
  by (simp_all add: SceneObject_select_def SceneObject_deselect_def split: prod.splits)

text \<open>The emissive colour and intensity of every material.\<close>

lemma highlight_child_emissive:
  "emissive (highlight_child ms n x) =
     (if isMesh n \<and> node_material n = Single x \<and> emissive (ms x) \<noteq> None
      then Some 0x333333 else emissive (ms x))"
  "emissiveIntensity (highlight_child ms n x) =
     (if isMesh n \<and> node_material n = Single x \<and> emissive (ms x) \<noteq> None
      then Some 0.3 else emissiveIntensity (ms x))"
  by (auto simp: highlight_child_def split: mat_slot.splits)

lemma foldl_highlight_emissive:
  "emissive (foldl highlight_child ms ns x) =
     (if x \<in> touched ns \<and> emissive (ms x) \<noteq> None then Some 0x333333 else emissive (ms x)) \<and>
   emissiveIntensity (foldl highlight_child ms ns x) =
     (if x \<in> touched ns \<and> emissive (ms x) \<noteq> None then Some 0.3 else emissiveIntensity (ms x))"
proof (induction ns arbitrary: ms)
  case Nil
  show ?case by (simp add: touched_def)
next
  case (Cons n ns)
  have t: "x \<in> touched (n # ns) \<longleftrightarrow> (isMesh n \<and> node_material n = Single x) \<or> x \<in> touched ns"
    by (auto simp: touched_def)
  show ?case
    using Cons.IH[of "highlight_child ms n"]
    by (simp add: t highlight_child_emissive)
qed

lemma restore_children_cached:
  assumes "\<forall>n \<in> set ns. cached ms0 n"
    and "\<forall>r \<in> touched ns. emissive (ms r) \<noteq> None"
  shows "\<exists>ms'. restore_children ms ns = (Returned, ms') \<and>
           (\<forall>x. emissive (ms' x) = (if x \<in> touched ns then emissive (ms0 x) else emissive (ms x)) \<and>
                emissiveIntensity (ms' x) =
                  (if x \<in> touched ns then emissiveIntensity (ms0 x) else emissiveIntensity (ms x)))"
  using assms
proof (induction ns arbitrary: ms)
  case Nil
  show ?case by (simp add: touched_def)
next
  case (Cons n ns)
  have t: "\<And>x. x \<in> touched (n # ns) \<longleftrightarrow> (isMesh n \<and> node_material n = Single x) \<or> x \<in> touched ns"
    by (auto simp: touched_def)
  from Cons.prems(1) have cn: "cached ms0 n" and cns: "\<forall>n \<in> set ns. cached ms0 n"
    by simp_all
  show ?case
  proof (cases "isMesh n \<and> node_material n \<noteq> NoMaterial")
    case False
    then have r: "restore_child ms n = Inr ms"
      by (simp add: restore_child_def)
    from False have nt: "\<And>x. \<not> (isMesh n \<and> node_material n = Single x)"
      by auto
    from Cons.prems(2) have "\<forall>r \<in> touched ns. emissive (ms r) \<noteq> None"
      by (simp add: t)
    from Cons.IH[OF cns this] show ?thesis
      by (simp add: r t nt)
  next
    case True
    with cn obtain r where r: "node_material n = Single r" "emissive (ms0 r) \<noteq> None"
        "userData_originalEmissive n = emissive (ms0 r)"
        "userData_originalEmissiveIntensity n = emissiveIntensity (ms0 r)"
      by (auto simp: cached_def)
    from True r Cons.prems(2) have e: "emissive (ms r) \<noteq> None"
      by (simp add: t)
    let ?ms1 = "ms(r := (ms r)\<lparr>emissive := emissive (ms0 r),
                                emissiveIntensity := emissiveIntensity (ms0 r),
                                needsUpdate := True\<rparr>)"
    have rc: "restore_child ms n = Inr ?ms1"
      using True r e by (simp add: restore_child_def)
    have "\<forall>r' \<in> touched ns. emissive (?ms1 r') \<noteq> None"
      using Cons.prems(2) r(2) by (simp add: t)
    from Cons.IH[OF cns this] obtain ms' where ms':
      "restore_children ?ms1 ns = (Returned, ms')"
      "\<forall>x. emissive (ms' x) = (if x \<in> touched ns then emissive (ms0 x) else emissive (?ms1 x)) \<and>
           emissiveIntensity (ms' x) =
             (if x \<in> touched ns then emissiveIntensity (ms0 x) else emissiveIntensity (?ms1 x))"
      by blast
    have "restore_children ms (n # ns) = (Returned, ms')"
      by (simp add: rc ms'(1))
    moreover have "\<forall>x. emissive (ms' x) =
                 (if x \<in> touched (n # ns) then emissive (ms0 x) else emissive (ms x)) \<and>
                emissiveIntensity (ms' x) =
                  (if x \<in> touched (n # ns) then emissiveIntensity (ms0 x)
                   else emissiveIntensity (ms x))"
      using ms'(2) True r(1) by (auto simp: t)
    ultimately show ?thesis by blast
  qed
qed


lemma num_or_Some_0: "num_or (Some v) 0 = v"
  by (simp add: num_or_def)

lemma store_original_keeps [simp]:
  "isMesh (store_original ms n) = isMesh n"
  "node_material (store_original ms n) = node_material n"
  by (simp_all add: store_original_def)

lemma store_original_cached:
  assumes "isMesh n \<and> node_material n \<noteq> NoMaterial \<longrightarrow>
           (\<exists>r. node_material n = Single r \<and> emissive (ms0 r) \<noteq> None \<and>
                emissiveIntensity (ms0 r) \<noteq> None)"
    and "userData_originalEmissive n = None"
  shows "cached ms0 (store_original ms0 n)"
  using assms
  by (auto simp: cached_def store_original_def slot_emissive_def slot_emissiveIntensity_def
        num_or_Some_0)

lemma touched_map_store: "touched (map (store_original ms) ns) = touched ns"
  by (auto simp: touched_def)

lemma new_SceneObject_cached:
  assumes "emissive_children ms0 m" and "\<forall>n \<in> set (traverse m). userData_originalEmissive n = None"
  shows "\<forall>n \<in> set (traverse (storeOriginalMaterials ms0 m)). cached ms0 n"
    and "touched (traverse (storeOriginalMaterials ms0 m)) = touched (traverse m)"
  using assms
  by (auto simp: storeOriginalMaterials_def traverse_map_nodes touched_map_store
        emissive_children_def intro!: store_original_cached)

lemma sel_step_inv:
  assumes c: "\<forall>n \<in> set (traverse M). cached ms0 n"
    and i: "sel_inv ms0 M soa"
  shows "sel_inv ms0 M (sel_step soa call)"
proof -
  obtain so a where soa: "soa = (so, a)" by (cases soa)
  have nn: "\<forall>r \<in> touched (traverse M). emissive (ms0 r) \<noteq> None"
    using c by (auto simp: touched_def cached_def)
  show ?thesis
  proof (cases call)
    case Select
    show ?thesis
    proof (cases "so_isSelected so")
      case True
      with i soa Select show ?thesis
        by (simp add: SceneObject_select_def)
    next
      case False
      with i soa have m: "so_mesh so = M"
        and e: "\<forall>x. emissive (materials a x) = emissive (ms0 x)"
        by (simp_all add: sel_inv_def)
      with i soa False have ei: "\<forall>x. emissiveIntensity (materials a x) = emissiveIntensity (ms0 x)"
        by (simp add: sel_inv_def)
      show ?thesis
        using False Select soa m e ei nn foldl_highlight_emissive[of "materials a" "traverse M"]
        by (simp add: SceneObject_select_def sel_inv_def)
    qed
  next
    case Deselect
    show ?thesis
    proof (cases "so_isSelected so")
      case False
      with i soa Deselect show ?thesis
        by (simp add: SceneObject_deselect_def)
    next
      case True
      with i soa have m: "so_mesh so = M"
        and e: "\<forall>x. emissive (materials a x) =
                   (if x \<in> touched (traverse M) then Some 0x333333 else emissive (ms0 x))"
        and ei: "\<forall>x. emissiveIntensity (materials a x) =
                   (if x \<in> touched (traverse M) then Some 0.3 else emissiveIntensity (ms0 x))"
        by (simp_all add: sel_inv_def)
      from e have "\<forall>r \<in> touched (traverse M). emissive (materials a r) \<noteq> None"
        by simp
      from restore_children_cached[OF c this] obtain ms' where ms':
        "restore_children (materials a) (traverse M) = (Returned, ms')"
        "\<forall>x. emissive (ms' x) =
               (if x \<in> touched (traverse M) then emissive (ms0 x) else emissive (materials a x)) \<and>
             emissiveIntensity (ms' x) =
               (if x \<in> touched (traverse M) then emissiveIntensity (ms0 x)
                else emissiveIntensity (materials a x))"
        by blast
      show ?thesis
        using True Deselect soa m e ei ms'
        by (simp add: SceneObject_deselect_def sel_inv_def)
    qed
  qed
qed

lemma run_sel_calls_inv:
  assumes "\<forall>n \<in> set (traverse M). cached ms0 n" and "sel_inv ms0 M soa"
  shows "sel_inv ms0 M (run_sel_calls calls soa)"
  using assms(2)
proof (induction calls arbitrary: soa)
  case Nil
  then show ?case by (simp add: run_sel_calls_def)
next
  case (Cons call calls)
  from Cons.IH[OF sel_step_inv[OF assms(1) Cons.prems, of call]] show ?case
    by (simp add: run_sel_calls_def)
qed

lemma sel_step_Deselect_not_selected:
  "\<not> so_isSelected (fst (sel_step soa Deselect))"
  by (cases soa) (simp add: SceneObject_deselect_def split: prod.splits)

text \<open>When every child that \<^verbatim>\<open>deselect\<close> visits has a single material with an emissive
  colour and intensity, any sequence of calls ending in \<^verbatim>\<open>deselect()\<close> restores both for
  every material.\<close>

lemma select_deselect_round_trip:
  assumes "emissive_children (materials a) m"
    and "\<forall>n \<in> set (traverse m). userData_originalEmissive n = None"
  shows "\<not> so_isSelected (fst (run_sel_calls (calls @ [Deselect]) (new_SceneObject m nm ident a, a))) \<and>
         (\<forall>r. emissive (materials (snd (run_sel_calls (calls @ [Deselect])
                   (new_SceneObject m nm ident a, a))) r) = emissive (materials a r) \<and>
              emissiveIntensity (materials (snd (run_sel_calls (calls @ [Deselect])
                   (new_SceneObject m nm ident a, a))) r) = emissiveIntensity (materials a r))"
proof -
  let ?M = "storeOriginalMaterials (materials a) m"
  let ?so = "new_SceneObject m nm ident a"
  have c: "\<forall>n \<in> set (traverse ?M). cached (materials a) n"
    using new_SceneObject_cached(1)[OF assms] .
  have i0: "sel_inv (materials a) ?M (?so, a)"
    by (simp add: sel_inv_def new_SceneObject_def)
  have i: "sel_inv (materials a) ?M (run_sel_calls (calls @ [Deselect]) (?so, a))"
    by (rule run_sel_calls_inv[OF c i0])
  have n: "\<not> so_isSelected (fst (run_sel_calls (calls @ [Deselect]) (?so, a)))"
    by (simp add: run_sel_calls_def sel_step_Deselect_not_selected)
  from i n show ?thesis
    by (simp add: sel_inv_def)
qed

section \<open>Selection and capture\<close>

text \<open>The selection slot and the flags of the objects of the two collections, over the
  states the application reaches from its initial state by its events; and what
  \<^verbatim>\<open>capture\<close> and the preview render do to the visibility of the camera helpers, the camera
  proxy meshes and the transform gizmo.\<close>

lemma foldl_hide_snd:
  "snd (foldl hide_step (v, cams) rs) = (\<lambda>x. if x \<in> set rs then hidden (cams x) else cams x)"
proof (induction rs arbitrary: v cams)
  case Nil
  show ?case by simp
next
  case (Cons r rs)
  have "hide_step (v, cams) r =
          (v @ [(helper_visible (cams r), mesh_visible (cams r))], cams(r := hidden (cams r)))"
    by (simp add: hide_step_def hidden_def)
  then show ?case
    unfolding foldl_Cons by (simp only: Cons.IH) (auto simp: fun_eq_iff hidden_def)
qed

lemma foldl_hide_fst:
  assumes "distinct rs"
  shows "fst (foldl hide_step vc rs) =
           fst vc @ map (\<lambda>r. (helper_visible (snd vc r), mesh_visible (snd vc r))) rs"
  using assms
proof (induction rs arbitrary: vc)
  case Nil
  show ?case by simp
next
  case (Cons r rs)
  then have "r \<notin> set rs" and "distinct rs" by simp_all
  with Cons.IH[of "hide_step vc r"] show ?case
    by (simp add: hide_step_def cong: map_cong)
qed

lemma foldl_restore:
  assumes "\<forall>i < length rs. n + i < length vis \<and> vis ! (n + i) = snap (rs ! i)"
  shows "foldl (restore_step vis) cams (enumerate n rs) =
           (\<lambda>x. if x \<in> set rs
                then (cams x)\<lparr>helper_visible := fst (snap x), mesh_visible := snd (snap x)\<rparr>
                else cams x)"
  using assms
proof (induction rs arbitrary: n cams)
  case Nil
  show ?case by simp
next
  case (Cons r rs)
  from Cons.prems have h: "n < length vis" "vis ! n = snap r"
    by force+
  have "\<forall>i < length rs. Suc n + i < length vis \<and> vis ! (Suc n + i) = snap (rs ! i)"
  proof (intro allI impI)
    fix i assume "i < length rs"
    then have "Suc i < length (r # rs)" by simp
    with Cons.prems have "n + Suc i < length vis \<and> vis ! (n + Suc i) = snap ((r # rs) ! Suc i)"
      by blast
    then show "Suc n + i < length vis \<and> vis ! (Suc n + i) = snap (rs ! i)" by simp
  qed
  from Cons.IH[OF this] show ?case
    by (auto simp: restore_step_def h fun_eq_iff)
qed

lemma hide_then_restore:
  assumes "distinct (map snd (cinemaCameras a))"
  shows "(case hideCameraVisualsForCapture a of (v, a1) \<Rightarrow> restoreCameraVisualsAfterCapture v a1) = a"
proof -
  let ?rs = "map snd (cinemaCameras a)"
  let ?h = "foldl hide_step ([], cameras a) ?rs"
  let ?snap = "\<lambda>r. (helper_visible (cameras a r), mesh_visible (cameras a r))"
  have f: "fst ?h = map ?snap ?rs"
    using foldl_hide_fst[OF assms, of "([], cameras a)"] by simp
  have s: "snd ?h = (\<lambda>x. if x \<in> set ?rs then hidden (cameras a x) else cameras a x)"
    by (rule foldl_hide_snd)
  have "\<forall>i < length ?rs. 0 + i < length (fst ?h) \<and> fst ?h ! (0 + i) = ?snap (?rs ! i)"
    unfolding f by simp
  from foldl_restore[OF this, of "snd ?h"]
  have r: "foldl (restore_step (fst ?h)) (snd ?h) (enumerate 0 ?rs) = cameras a"
    unfolding s by (auto simp: fun_eq_iff hidden_def)
  show ?thesis
    by (simp add: hideCameraVisualsForCapture_def restoreCameraVisualsAfterCapture_def
          case_prod_beta r)
qed

lemma hide_effect:
  "snd (hideCameraVisualsForCapture a) =
     a\<lparr>cameras := (\<lambda>x. if x \<in> set (map snd (cinemaCameras a)) then hidden (cameras a x)
                        else cameras a x),
       transformControls_visible := False\<rparr>"
  using foldl_hide_snd[of "[]" "cameras a" "map snd (cinemaCameras a)"]
  by (simp add: hideCameraVisualsForCapture_def case_prod_beta)


lemma sel_view_eqD:
  assumes "sel_view a' = sel_view a"
  shows "sceneObjects a' = sceneObjects a" "cinemaCameras a' = cinemaCameras a"
    "selectedObject a' = selectedObject a" "next_scene_obj a' = next_scene_obj a"
    "next_camera a' = next_camera a"
    "so_isSelected (scene_objs a' r) = so_isSelected (scene_objs a r)"
    "so_id (scene_objs a' r) = so_id (scene_objs a r)"
    "cam_isSelected (cameras a' r) = cam_isSelected (cameras a r)"
    "cam_id (cameras a' r) = cam_id (cameras a r)"
  using assms by (auto simp: sel_view_def fun_eq_iff)

lemma isSelected_view:
  assumes "sel_view a' = sel_view a"
  shows "isSelected a' x = isSelected a x"
  by (cases x) (simp_all add: sel_view_eqD[OF assms])

lemma selectable_view:
  assumes "sel_view a' = sel_view a"
  shows "selectable a' = selectable a"
  by (simp add: selectable_def sel_view_eqD[OF assms])

lemma wf_app_view:
  assumes "sel_view a' = sel_view a"
  shows "wf_app a' = wf_app a"
  by (simp add: wf_app_def sel_view_eqD[OF assms] isSelected_view[OF assms]
        selectable_view[OF assms])

lemma foldl_restore_keeps:
  "cam_isSelected (foldl (restore_step vis) cams irs x) = cam_isSelected (cams x) \<and>
   cam_id (foldl (restore_step vis) cams irs x) = cam_id (cams x)"
  by (induction irs arbitrary: cams) (simp_all add: restore_step_def)

lemma sel_view_hide: "sel_view (snd (hideCameraVisualsForCapture a)) = sel_view a"
  by (simp add: hide_effect sel_view_def hidden_def fun_eq_iff)

lemma sel_view_restore: "sel_view (restoreCameraVisualsAfterCapture v a) = sel_view a"
  by (simp add: restoreCameraVisualsAfterCapture_def sel_view_def foldl_restore_keeps)

lemma sel_view_capture: "sel_view (snd (capture fails_at a)) = sel_view a"
  using sel_view_hide[of a]
  by (simp add: capture_def case_prod_beta sel_view_restore)

lemma sel_view_renderCameraPreview: "sel_view (snd (renderCameraPreview f a)) = sel_view a"
  using sel_view_hide[of a]
  by (simp add: renderCameraPreview_def case_prod_beta sel_view_restore Let_def
           split: option.splits sel_ref.splits)

lemma sel_view_showCameraPreview: "sel_view (snd (showCameraPreview f a)) = sel_view a"
proof -
  have "sel_view (a\<lparr>cameraPreviewRenderer := True\<rparr>) = sel_view a"
    by (simp add: sel_view_def)
  with sel_view_renderCameraPreview[of f "a\<lparr>cameraPreviewRenderer := True\<rparr>"] show ?thesis
    by (simp add: showCameraPreview_def split: option.splits sel_ref.splits)
qed

lemma foldl_hide_all_keeps:
  "cam_isSelected (foldl (\<lambda>cams x. cams(x := (cams x)\<lparr>helper_visible := False,
        mesh_visible := False\<rparr>)) cams rs x) = cam_isSelected (cams x) \<and>
   cam_id (foldl (\<lambda>cams x. cams(x := (cams x)\<lparr>helper_visible := False,
        mesh_visible := False\<rparr>)) cams rs x) = cam_id (cams x)"
  by (induction rs arbitrary: cams) simp_all

lemma sel_view_renderFullscreen: "sel_view (renderFullscreen a) = sel_view a"
  by (simp add: renderFullscreen_def sel_view_def foldl_hide_all_keeps
           split: option.splits sel_ref.splits)

lemma sel_view_enterFullscreen: "sel_view (enterFullscreen a) = sel_view a"
proof -
  have "sel_view (a\<lparr>isFullscreen := True\<rparr>) = sel_view a"
    by (simp add: sel_view_def)
  with sel_view_renderFullscreen[of "a\<lparr>isFullscreen := True\<rparr>"] show ?thesis
    by (simp add: enterFullscreen_def split: option.splits sel_ref.splits)
qed

lemma sel_view_exitFullscreen: "sel_view (exitFullscreen a) = sel_view a"
  by (simp add: exitFullscreen_def sel_view_def fun_eq_iff split: option.splits sel_ref.splits)

lemma sel_view_pin: "sel_view (togglePinCameraPreview a) = sel_view a"
  by (simp add: togglePinCameraPreview_def pinCameraPreview_def unpinCameraPreview_def
        sel_view_def split: option.splits sel_ref.splits)

lemma sel_view_camera_sliders:
  "sel_view (on_selected_camera (setFocalLength x) a) = sel_view a"
  "sel_view (on_selected_camera (setSensorSize x) a) = sel_view a"
  by (simp_all add: on_selected_camera_def setFocalLength_def setSensorSize_def
        updateCameraSettings_def sel_view_def fun_eq_iff split: option.splits sel_ref.splits)

lemma sel_view_on_screen:
  "sel_view (on_screen (setCustomTexture loaded) a) = sel_view a"
  "sel_view (on_screen (setBrightness x) a) = sel_view a"
  "sel_view (on_screen resetToOriginal a) = sel_view a"
  by (simp_all add: on_screen_def setCustomTexture_def setBrightness_def resetToOriginal_def
        sel_view_def Let_def split: option.splits)

lemma sel_view_remove_current_studio: "sel_view (remove_current_studio a) = sel_view a"
  by (simp add: sel_view_def remove_current_studio_fields)

lemma sel_view_switchStudio: "sel_view (snd (switchStudio nm p gltf a)) = sel_view a"
  using sel_view_remove_current_studio[of a]
  by (simp add: switchStudio_def Let_def sel_view_def applyScreenState_def
           split: option.splits sum.splits)

lemma sel_view_new_LEDScreen: "sel_view (snd (new_LEDScreen m nm w a)) = sel_view a"
  by (simp add: new_LEDScreen_def findTargetMaterial_def applyGlobalState_def
        logAvailableMaterials_def sel_view_def Let_def split: option.splits prod.splits)


lemma sel_view_updates [simp]:
  "sel_view (a\<lparr>console := c\<rparr>) = sel_view a"
  "sel_view (a\<lparr>ledScreen := l\<rparr>) = sel_view a"
  "sel_view (a\<lparr>materials := m\<rparr>) = sel_view a"
  "sel_view (a\<lparr>globalBrightness := b\<rparr>) = sel_view a"
  "sel_view (a\<lparr>availableStudios := st\<rparr>) = sel_view a"
  "sel_view (a\<lparr>transformControls_object := t\<rparr>) = sel_view a"
  "sel_view (a\<lparr>transformControls_visible := v\<rparr>) = sel_view a"
  "sel_view (a\<lparr>scene := sc\<rparr>) = sel_view a"
  "sel_view (a\<lparr>disposed := d\<rparr>) = sel_view a"
  "sel_view (a\<lparr>pinnedCamera := p\<rparr>) = sel_view a"
  by (simp_all add: sel_view_def)

lemma sel_view_setBrightness: "sel_view (snd (setBrightness b s a)) = sel_view a"
  by (simp add: setBrightness_def Let_def split: option.splits)

lemma sel_view_onStudioChange: "sel_view (onStudioChange nm gltf a) = sel_view a"
proof (cases "nm = []")
  case True
  then show ?thesis by (simp add: onStudioChange_def)
next
  case False
  obtain res a1 where sw: "switchStudio nm False gltf a = (res, a1)"
    by (cases "switchStudio nm False gltf a")
  then have v1: "sel_view a1 = sel_view a"
    using sel_view_switchStudio[of nm False gltf a] by simp
  show ?thesis
  proof (cases res)
    case None
    with False sw v1 show ?thesis by (simp add: onStudioChange_def)
  next
    case (Some r)
    obtain s a2 where nw: "new_LEDScreen (Some (result_mesh r)) ''M_WhiteScreen'' True a1 = (s, a2)"
      by (cases "new_LEDScreen (Some (result_mesh r)) ''M_WhiteScreen'' True a1")
    then have v2: "sel_view a2 = sel_view a"
      using sel_view_new_LEDScreen[of "Some (result_mesh r)" "''M_WhiteScreen''" True a1] v1 by simp
    have b: "\<And>b s' x. sel_view x = sel_view a \<Longrightarrow>
              sel_view (case setBrightness b s' x of (s5, a5) \<Rightarrow> a5\<lparr>ledScreen := Some s5\<rparr>) = sel_view a"
      using sel_view_setBrightness by (simp add: case_prod_beta)
    show ?thesis
      using False sw Some nw v2 b
      by (simp add: onStudioChange_def Let_def split: option.splits)
  qed
qed

lemma sel_view_initializeStudioManager: "sel_view (initializeStudioManager found gltf a) = sel_view a"
proof -
  obtain res a1 where sw:
    "switchStudio ''MADRID_15X5'' False gltf (a\<lparr>availableStudios := found\<rparr>) = (res, a1)"
    by (cases "switchStudio ''MADRID_15X5'' False gltf (a\<lparr>availableStudios := found\<rparr>)")
  then have v1: "sel_view a1 = sel_view a"
    using sel_view_switchStudio[of "''MADRID_15X5''" False gltf "a\<lparr>availableStudios := found\<rparr>"]
    by simp
  show ?thesis
  proof (cases res)
    case None
    with sw v1 show ?thesis by (simp add: initializeStudioManager_def)
  next
    case (Some r)
    obtain s a2 where nw: "new_LEDScreen (Some (result_mesh r)) ''M_WhiteScreen'' True a1 = (s, a2)"
      by (cases "new_LEDScreen (Some (result_mesh r)) ''M_WhiteScreen'' True a1")
    then have v2: "sel_view a2 = sel_view a"
      using sel_view_new_LEDScreen[of "Some (result_mesh r)" "''M_WhiteScreen''" True a1] v1 by simp
    show ?thesis
      using sw Some nw v2 by (simp add: initializeStudioManager_def)
  qed
qed


lemma same_collections_refl [simp]: "same_collections a a"
  by (simp add: same_collections_def)

lemma same_collections_trans:
  "same_collections a'' a' \<Longrightarrow> same_collections a' a \<Longrightarrow> same_collections a'' a"
  by (simp add: same_collections_def)

lemma same_collections_view:
  "sel_view a' = sel_view a \<Longrightarrow> same_collections a' a"
  by (auto simp: same_collections_def sel_view_def fun_eq_iff)

lemma SceneObject_deselect_flags:
  "so_isSelected (fst (snd (SceneObject_deselect so a))) = False"
  "so_id (fst (snd (SceneObject_deselect so a))) = so_id so"
  "scene_objs (snd (snd (SceneObject_deselect so a))) = scene_objs a"
  "sel_view (snd (snd (SceneObject_deselect so a))) = sel_view a"
  "cameras (snd (snd (SceneObject_deselect so a))) = cameras a"
  by (simp_all add: SceneObject_deselect_def case_prod_beta)

lemma SceneObject_select_flags:
  "so_isSelected (fst (SceneObject_select so a)) = True"
  "so_id (fst (SceneObject_select so a)) = so_id so"
  "scene_objs (snd (SceneObject_select so a)) = scene_objs a"
  "sel_view (snd (SceneObject_select so a)) = sel_view a"
  "cameras (snd (SceneObject_select so a)) = cameras a"
  by (simp_all add: SceneObject_select_def)

lemma entity_deselect_effect:
  "same_collections (snd (entity_deselect obj a)) a"
  "selectedObject (snd (entity_deselect obj a)) = selectedObject a"
  "isSelected (snd (entity_deselect obj a)) x = (x \<noteq> obj \<and> isSelected a x)"
proof -
  show "same_collections (snd (entity_deselect obj a)) a"
    using sel_view_eqD[OF SceneObject_deselect_flags(4)] SceneObject_deselect_flags(2,3)
    by (cases obj)
       (auto simp: entity_deselect_def case_prod_beta same_collections_def
          CinemaCamera_deselect_def)
  show "selectedObject (snd (entity_deselect obj a)) = selectedObject a"
    using sel_view_eqD(3)[OF SceneObject_deselect_flags(4)]
    by (cases obj) (simp_all add: entity_deselect_def case_prod_beta)
  show "isSelected (snd (entity_deselect obj a)) x = (x \<noteq> obj \<and> isSelected a x)"
    using SceneObject_deselect_flags(1,3,5)
    by (cases obj; cases x)
       (auto simp: entity_deselect_def case_prod_beta CinemaCamera_deselect_def)
qed

lemma entity_select_effect:
  "same_collections (entity_select obj a) a"
  "selectedObject (entity_select obj a) = selectedObject a"
  "isSelected (entity_select obj a) x = (x = obj \<or> isSelected a x)"
proof -
  show "same_collections (entity_select obj a) a"
    using sel_view_eqD[OF SceneObject_select_flags(4)] SceneObject_select_flags(2,3)
    by (cases obj)
       (auto simp: entity_select_def case_prod_beta same_collections_def
          CinemaCamera_select_def)
  show "selectedObject (entity_select obj a) = selectedObject a"
    using sel_view_eqD(3)[OF SceneObject_select_flags(4)]
    by (cases obj) (simp_all add: entity_select_def case_prod_beta)
  show "isSelected (entity_select obj a) x = (x = obj \<or> isSelected a x)"
    using SceneObject_select_flags(1,3,5)
    by (cases obj; cases x)
       (auto simp: entity_select_def case_prod_beta CinemaCamera_select_def)
qed

lemma wf_app_same_collections:
  assumes "wf_app a" and "same_collections a' a"
    and "\<forall>x \<in> selectable a. isSelected a' x \<longrightarrow> selectedObject a' = Some x"
  shows "wf_app a'"
proof -
  have "selectable a' = selectable a"
    using assms(2) by (simp add: selectable_def same_collections_def)
  with assms show ?thesis
    by (simp add: wf_app_def same_collections_def)
qed


lemma wf_selectObject:
  assumes wf: "wf_app a"
  shows "wf_app (snd (selectObject obj f a))"
proof (cases "selectedObject a = Some obj")
  case True
  with wf show ?thesis by (simp add: selectObject_def)
next
  case False
  define ca where "ca = (case selectedObject a of None \<Rightarrow> (Returned, a)
                          | Some prev \<Rightarrow> entity_deselect prev a)"
  obtain c a1 where ca1: "ca = (c, a1)" by (cases ca)
  have a1: "same_collections a1 a \<and> selectedObject a1 = selectedObject a \<and>
    (\<forall>x. isSelected a1 x = (Some x \<noteq> selectedObject a \<and> isSelected a x))"
  proof (cases "selectedObject a")
    case None
    with ca1 have "a1 = a" by (simp add: ca_def)
    with None show ?thesis by simp
  next
    case (Some prev)
    with ca1 have "a1 = snd (entity_deselect prev a)" by (simp add: ca_def)
    with Some show ?thesis by (auto simp: entity_deselect_effect)
  qed
  have sel: "\<And>x. x \<in> selectable a \<Longrightarrow> isSelected a x \<Longrightarrow> selectedObject a = Some x"
    using wf by (simp add: wf_app_def)
  show ?thesis
  proof (cases c)
    case (Thrown e)
    then have r: "snd (selectObject obj f a) = a1"
      using False ca1 by (simp add: selectObject_def ca_def[symmetric])
    show ?thesis
      unfolding r using a1 sel by (intro wf_app_same_collections[OF wf]) auto
  next
    case Returned
    note a1 = conjunct1[OF a1] conjunct1[OF conjunct2[OF a1]]
              spec[OF conjunct2[OF conjunct2[OF a1]]]
    let ?a2 = "entity_select obj (a1\<lparr>selectedObject := Some obj\<rparr>)"
    let ?a3 = "?a2\<lparr>transformControls_object := Some (transform_target ?a2 obj),
                   transformControls_visible := True\<rparr>"
    have c12: "same_collections (a1\<lparr>selectedObject := Some obj\<rparr>) a"
      using a1(1) by (simp add: same_collections_def)
    have c2: "same_collections ?a2 a"
      using same_collections_trans[OF entity_select_effect(1) c12] .
    have s2: "selectedObject ?a2 = Some obj"
      by (simp add: entity_select_effect(2))
    have f2: "\<And>x. isSelected ?a2 x = (x = obj \<or> (Some x \<noteq> selectedObject a \<and> isSelected a x))"
    proof -
      fix x
      have "isSelected (a1\<lparr>selectedObject := Some obj\<rparr>) x = isSelected a1 x"
        by (cases x) simp_all
      then show "isSelected ?a2 x = (x = obj \<or> (Some x \<noteq> selectedObject a \<and> isSelected a x))"
        by (simp add: entity_select_effect(3) a1(3))
    qed
    have wf2: "wf_app ?a2"
      using c2 s2 f2 sel by (intro wf_app_same_collections[OF wf]) auto
    have v3: "sel_view ?a3 = sel_view ?a2"
      by simp
    have r: "snd (selectObject obj f a) =
               (case obj of ObjRef r \<Rightarrow> ?a3 | CamRef r \<Rightarrow> snd (showCameraPreview f ?a3))"
      using False ca1 Returned
      by (simp add: selectObject_def ca_def[symmetric] Let_def split: sel_ref.splits)
    have "sel_view (snd (selectObject obj f a)) = sel_view ?a2"
      unfolding r using v3 sel_view_showCameraPreview[of f ?a3]
      by (cases obj) (simp_all del: sel_view_updates)
    from wf_app_view[OF this] wf2 show ?thesis by simp
  qed
qed

lemma wf_deselectAll:
  assumes wf: "wf_app a"
  shows "wf_app (snd (deselectAll a))"
proof (cases "selectedObject a")
  case None
  then have "sel_view (snd (deselectAll a)) = sel_view a"
    by (simp add: deselectAll_def detach_def sel_view_def)
  from wf_app_view[OF this] wf show ?thesis by simp
next
  case (Some cur)
  obtain c a1 where d: "entity_deselect cur a = (c, a1)"
    by (cases "entity_deselect cur a")
  have a1: "same_collections a1 a" "selectedObject a1 = selectedObject a"
    "\<And>x. isSelected a1 x = (x \<noteq> cur \<and> isSelected a x)"
    using entity_deselect_effect[of cur a] d by simp_all
  have sel: "\<And>x. x \<in> selectable a \<Longrightarrow> isSelected a x \<Longrightarrow> selectedObject a = Some x"
    using wf by (simp add: wf_app_def)
  have wf1: "wf_app a1"
    using a1 sel by (intro wf_app_same_collections[OF wf]) auto
  show ?thesis
  proof (cases c)
    case (Thrown e)
    with Some d wf1 show ?thesis by (simp add: deselectAll_def)
  next
    case Returned
    then have r: "snd (deselectAll a) = detach (a1\<lparr>selectedObject := None\<rparr>)"
      using Some d by (simp add: deselectAll_def)
    have c: "same_collections (detach (a1\<lparr>selectedObject := None\<rparr>)) a"
      using a1(1) by (simp add: same_collections_def detach_def)
    have f: "\<And>x. isSelected (detach (a1\<lparr>selectedObject := None\<rparr>)) x = isSelected a1 x"
    proof -
      fix x show "isSelected (detach (a1\<lparr>selectedObject := None\<rparr>)) x = isSelected a1 x"
        by (cases x) (simp_all add: detach_def)
    qed
    show ?thesis
      unfolding r using c f a1(3) sel Some
      by (intro wf_app_same_collections[OF wf]) auto
  qed
qed


lemma set_map_set: "set (map_set k v kvs) \<subseteq> insert (k, v) (set kvs)"
  by (auto simp: map_set_def)

lemma replace_keys:
  "map fst (map (\<lambda>kv. if fst kv = k then (k, v) else kv) kvs) = map fst kvs"
  by (induction kvs) simp_all

lemma replace_values_subset:
  "set (map snd (map (\<lambda>kv. if fst kv = k then (k, v) else kv) kvs)) \<subseteq> insert v (set (map snd kvs))"
  by (induction kvs) auto

lemma map_set_distinct_keys:
  assumes "distinct (map fst kvs)"
  shows "distinct (map fst (map_set k v kvs))"
proof (cases "k \<in> set (map fst kvs)")
  case True
  then have "map_set k v kvs = map (\<lambda>kv. if fst kv = k then (k, v) else kv) kvs"
    by (simp add: map_set_def)
  then have "map fst (map_set k v kvs) = map fst kvs"
    by (simp only: replace_keys)
  with assms show ?thesis by (simp only:)
next
  case False
  then have "map_set k v kvs = kvs @ [(k, v)]"
    by (simp add: map_set_def)
  with assms False show ?thesis by simp
qed

lemma replace_distinct_values:
  assumes "distinct (map fst kvs)" and "distinct (map snd kvs)" and "v \<notin> set (map snd kvs)"
  shows "distinct (map snd (map (\<lambda>kv. if fst kv = k then (k, v) else kv) kvs))"
  using assms
proof (induction kvs)
  case Nil
  show ?case by simp
next
  case (Cons kv kvs)
  let ?f = "\<lambda>kv. if fst kv = k then (k, v) else kv"
  from Cons.prems have p: "distinct (map fst kvs)" "distinct (map snd kvs)"
    "v \<notin> set (map snd kvs)" "fst kv \<notin> set (map fst kvs)" "snd kv \<notin> set (map snd kvs)"
    "snd kv \<noteq> v"
    by auto
  have ih: "distinct (map snd (map ?f kvs))"
    using Cons.IH[OF p(1,2,3)] .
  show ?case
  proof (cases "fst kv = k")
    case True
    from p(4) True have "\<And>x. x \<in> set kvs \<Longrightarrow> fst x \<noteq> k"
      by (metis imageI set_map)
    then have "map ?f kvs = kvs"
      by (intro map_idI) simp
    then have "map snd (map ?f (kv # kvs)) = v # map snd kvs"
      using True by simp
    with p(2,3) show ?thesis by (simp only: distinct.simps) simp
  next
    case False
    then have e: "map snd (map ?f (kv # kvs)) = snd kv # map snd (map ?f kvs)"
      by simp
    have "snd kv \<notin> set (map snd (map ?f kvs))"
      using replace_values_subset[of k v kvs] p(5,6) by blast
    with ih show ?thesis by (simp only: e distinct.simps) simp
  qed
qed

lemma map_set_distinct_values:
  assumes "distinct (map fst kvs)" and "distinct (map snd kvs)" and "v \<notin> set (map snd kvs)"
  shows "distinct (map snd (map_set k v kvs))"
proof (cases "k \<in> set (map fst kvs)")
  case True
  then have "map_set k v kvs = map (\<lambda>kv. if fst kv = k then (k, v) else kv) kvs"
    by (simp add: map_set_def)
  with replace_distinct_values[OF assms, of k] show ?thesis by (simp only:)
next
  case False
  then have "map_set k v kvs = kvs @ [(k, v)]"
    by (simp add: map_set_def)
  with assms show ?thesis by simp
qed

lemma wf_createCinemaCamera:
  assumes wf: "wf_app a"
  shows "wf_app (createCinemaCamera ident a)"
proof -
  let ?r = "next_camera a"
  let ?a' = "createCinemaCamera ident a"
  have fresh: "?r \<notin> set (map snd (cinemaCameras a))"
    using wf by (auto simp: wf_app_def)
  have f: "cinemaCameras ?a' = map_set ident ?r (cinemaCameras a)"
    "sceneObjects ?a' = sceneObjects a" "scene_objs ?a' = scene_objs a"
    "next_scene_obj ?a' = next_scene_obj a" "next_camera ?a' = Suc ?r"
    "selectedObject ?a' = selectedObject a"
    "cameras ?a' = (cameras a)(?r := new_CinemaCamera (''Camera '' @ string_of_nat (cameraCounter a)) ident)"
    by (simp_all add: createCinemaCamera_def Let_def)
  have d1: "distinct (map fst (cinemaCameras ?a'))"
    unfolding f using wf by (simp add: wf_app_def map_set_distinct_keys)
  have d2: "distinct (map snd (cinemaCameras ?a'))"
    unfolding f using wf fresh by (simp add: wf_app_def map_set_distinct_values)
  have so: "\<forall>kr \<in> set (sceneObjects ?a').
         snd kr < next_scene_obj ?a' \<and> so_id (scene_objs ?a' (snd kr)) = fst kr"
    unfolding f using wf by (simp add: wf_app_def)
  have cm: "\<forall>kr \<in> set (cinemaCameras ?a').
         snd kr < next_camera ?a' \<and> cam_id (cameras ?a' (snd kr)) = fst kr"
  proof
    fix kr assume "kr \<in> set (cinemaCameras ?a')"
    then have "kr = (ident, ?r) \<or> kr \<in> set (cinemaCameras a)"
      unfolding f using set_map_set[of ident ?r "cinemaCameras a"] by auto
    then show "snd kr < next_camera ?a' \<and> cam_id (cameras ?a' (snd kr)) = fst kr"
    proof
      assume "kr = (ident, ?r)"
      then show ?thesis unfolding f by (simp add: new_CinemaCamera_fields)
    next
      assume k: "kr \<in> set (cinemaCameras a)"
      with wf have "snd kr < ?r" "cam_id (cameras a (snd kr)) = fst kr"
        by (auto simp: wf_app_def)
      then show ?thesis unfolding f by simp
    qed
  qed
  have sl: "\<forall>x \<in> selectable ?a'. isSelected ?a' x \<longrightarrow> selectedObject ?a' = Some x"
  proof (intro ballI impI)
    fix x assume x: "x \<in> selectable ?a'" "isSelected ?a' x"
    show "selectedObject ?a' = Some x"
    proof (cases x)
      case (ObjRef r)
      with x have "x \<in> selectable a" "isSelected a x"
        by (auto simp: selectable_def f)
      with wf show ?thesis unfolding f by (simp add: wf_app_def)
    next
      case (CamRef r)
      have "\<not> cam_isSelected (cameras ?a' ?r)"
        by (simp add: f new_CinemaCamera_fields)
      with x(2) CamRef have ne: "r \<noteq> ?r"
        by auto
      from x(1) CamRef have "r \<in> snd ` set (map_set ident ?r (cinemaCameras a))"
        by (auto simp: selectable_def f)
      with ne have "r \<in> snd ` set (cinemaCameras a)"
        using set_map_set[of ident ?r "cinemaCameras a"] by auto
      with CamRef have "x \<in> selectable a" by (auto simp: selectable_def)
      moreover from x(2) CamRef ne have "isSelected a x" by (simp add: f)
      ultimately show ?thesis using wf unfolding f by (simp add: wf_app_def)
    qed
  qed
  from d1 d2 so cm sl show ?thesis by (simp add: wf_app_def)
qed


lemma wf_loadGLTFModel:
  assumes wf: "wf_app a"
  shows "wf_app (loadGLTFModel gltf nm ident a)"
proof (cases gltf)
  case (Inl err)
  then have "sel_view (loadGLTFModel gltf nm ident a) = sel_view a"
    by (simp add: loadGLTFModel_def)
  from wf_app_view[OF this] wf show ?thesis by simp
next
  case (Inr m)
  let ?r = "next_scene_obj a"
  let ?a' = "loadGLTFModel gltf nm ident a"
  obtain so where f: "sceneObjects ?a' = map_set ident ?r (sceneObjects a)"
    "cinemaCameras ?a' = cinemaCameras a" "cameras ?a' = cameras a"
    "next_scene_obj ?a' = Suc ?r" "next_camera ?a' = next_camera a"
    "selectedObject ?a' = selectedObject a"
    "scene_objs ?a' = (scene_objs a)(?r := so)" "so_id so = ident" "\<not> so_isSelected so"
    using Inr by (simp add: loadGLTFModel_def Let_def new_SceneObject_def)
  have so: "\<forall>kr \<in> set (sceneObjects ?a').
         snd kr < next_scene_obj ?a' \<and> so_id (scene_objs ?a' (snd kr)) = fst kr"
  proof
    fix kr assume "kr \<in> set (sceneObjects ?a')"
    then have "kr = (ident, ?r) \<or> kr \<in> set (sceneObjects a)"
      unfolding f using set_map_set[of ident ?r "sceneObjects a"] by auto
    then show "snd kr < next_scene_obj ?a' \<and> so_id (scene_objs ?a' (snd kr)) = fst kr"
    proof
      assume "kr = (ident, ?r)"
      then show ?thesis by (simp add: f)
    next
      assume k: "kr \<in> set (sceneObjects a)"
      with wf have "snd kr < ?r" "so_id (scene_objs a (snd kr)) = fst kr"
        by (auto simp: wf_app_def)
      then show ?thesis by (simp add: f)
    qed
  qed
  have sl: "\<forall>x \<in> selectable ?a'. isSelected ?a' x \<longrightarrow> selectedObject ?a' = Some x"
  proof (intro ballI impI)
    fix x assume x: "x \<in> selectable ?a'" "isSelected ?a' x"
    show "selectedObject ?a' = Some x"
    proof (cases x)
      case (CamRef r)
      with x have "x \<in> selectable a" "isSelected a x"
        by (auto simp: selectable_def f)
      with wf show ?thesis by (simp add: wf_app_def f)
    next
      case (ObjRef r)
      with x(2) have ne: "r \<noteq> ?r"
        using f(9) by (auto simp: f(7))
      from x(1) ObjRef have "r \<in> snd ` set (map_set ident ?r (sceneObjects a))"
        by (auto simp: selectable_def f)
      with ne have "r \<in> snd ` set (sceneObjects a)"
        using set_map_set[of ident ?r "sceneObjects a"] by auto
      with ObjRef have "x \<in> selectable a" by (auto simp: selectable_def)
      moreover from x(2) ObjRef ne have "isSelected a x" by (simp add: f)
      ultimately show ?thesis using wf by (simp add: wf_app_def f)
    qed
  qed
  from so sl wf show ?thesis by (simp add: wf_app_def f)
qed

lemma set_map_delete: "set (map_delete k kvs) = {kv \<in> set kvs. fst kv \<noteq> k}"
  by (auto simp: map_delete_def)

lemma map_delete_distinct:
  "distinct (map fst kvs) \<Longrightarrow> distinct (map fst (map_delete k kvs))"
  "distinct (map snd kvs) \<Longrightarrow> distinct (map snd (map_delete k kvs))"
  by (simp_all add: map_delete_def distinct_map_filter)

lemma wf_deleteSelectedObject:
  assumes wf: "wf_app a"
  shows "wf_app (deleteSelectedObject a)"
proof (cases "selectedObject a")
  case None
  with wf show ?thesis by (simp add: deleteSelectedObject_def)
next
  case (Some cur)
  let ?a' = "deleteSelectedObject a"
  have sel: "\<And>x. x \<in> selectable a \<Longrightarrow> isSelected a x \<Longrightarrow> x = cur"
    using wf Some by (simp add: wf_app_def)
  show ?thesis
  proof (cases cur)
    case (ObjRef r)
    have f: "sceneObjects ?a' = map_delete (so_id (scene_objs a r)) (sceneObjects a)"
      "cinemaCameras ?a' = cinemaCameras a" "cameras ?a' = cameras a"
      "next_scene_obj ?a' = next_scene_obj a" "next_camera ?a' = next_camera a"
      "selectedObject ?a' = None" "scene_objs ?a' = scene_objs a"
      using Some ObjRef
      by (simp_all add: deleteSelectedObject_def Let_def detach_def SceneObject_delete_def)
    have sl: "\<forall>x \<in> selectable ?a'. isSelected ?a' x \<longrightarrow> selectedObject ?a' = Some x"
    proof (intro ballI impI)
      fix x assume x: "x \<in> selectable ?a'" "isSelected ?a' x"
      have i: "isSelected a x" using x(2) by (cases x) (simp_all add: f)
      have s: "x \<in> selectable a" using x(1) by (auto simp: selectable_def f set_map_delete)
      from sel[OF s i] ObjRef have xr: "x = ObjRef r" by simp
      with x(1) obtain k where k: "(k, r) \<in> set (sceneObjects a)" "k \<noteq> so_id (scene_objs a r)"
        by (auto simp: selectable_def f set_map_delete)
      with wf have False by (auto simp: wf_app_def)
      then show "selectedObject ?a' = Some x" ..
    qed
    from wf sl show ?thesis by (auto simp: wf_app_def f set_map_delete)
  next
    case (CamRef r)
    have f: "cinemaCameras ?a' = map_delete (cam_id (cameras a r)) (cinemaCameras a)"
      "sceneObjects ?a' = sceneObjects a" "cameras ?a' = cameras a"
      "next_scene_obj ?a' = next_scene_obj a" "next_camera ?a' = next_camera a"
      "selectedObject ?a' = None" "scene_objs ?a' = scene_objs a"
      using Some CamRef
      by (simp_all add: deleteSelectedObject_def Let_def detach_def CinemaCamera_delete_def
            unpinCameraPreview_def split: option.splits)
    have sl: "\<forall>x \<in> selectable ?a'. isSelected ?a' x \<longrightarrow> selectedObject ?a' = Some x"
    proof (intro ballI impI)
      fix x assume x: "x \<in> selectable ?a'" "isSelected ?a' x"
      have i: "isSelected a x" using x(2) by (cases x) (simp_all add: f)
      have s: "x \<in> selectable a" using x(1) by (auto simp: selectable_def f set_map_delete)
      from sel[OF s i] CamRef have xr: "x = CamRef r" by simp
      with x(1) obtain k where k: "(k, r) \<in> set (cinemaCameras a)" "k \<noteq> cam_id (cameras a r)"
        by (auto simp: selectable_def f set_map_delete)
      with wf have False by (auto simp: wf_app_def)
      then show "selectedObject ?a' = Some x" ..
    qed
    from wf sl show ?thesis by (auto simp: wf_app_def f set_map_delete map_delete_distinct)
  qed
qed

lemma wf_initial: "wf_app (initial_app ms ts sos cs)"
  by (simp add: wf_app_def initial_app_def selectable_def)

lemma wf_step:
  assumes "wf_app a"
  shows "wf_app (step e a)"
proof (cases e)
  case (Click target f)
  with assms show ?thesis
    by (cases target) (simp_all add: wf_selectObject wf_deselectAll)
next
  case EscapeKey
  with assms show ?thesis
    by (simp add: wf_deselectAll wf_app_view[OF sel_view_exitFullscreen])
next
  case (CaptureKey fails_at)
  with assms show ?thesis
    by (simp add: wf_app_view[OF sel_view_capture] split: option.splits sel_ref.splits)
qed (use assms in \<open>simp_all add: wf_app_view[OF sel_view_initializeStudioManager]
       wf_app_view[OF sel_view_onStudioChange] wf_app_view[OF sel_view_on_screen(1)]
       wf_app_view[OF sel_view_on_screen(2)] wf_app_view[OF sel_view_on_screen(3)]
       wf_loadGLTFModel wf_createCinemaCamera wf_deleteSelectedObject
       wf_app_view[OF sel_view_renderCameraPreview] wf_app_view[OF sel_view_pin]
       wf_app_view[OF sel_view_camera_sliders(1)] wf_app_view[OF sel_view_camera_sliders(2)]
       wf_app_view[OF sel_view_enterFullscreen] wf_app_view[OF sel_view_exitFullscreen]
       wf_app_view[OF sel_view_renderFullscreen]\<close>)

lemma reachable_wf: "reachable a \<Longrightarrow> wf_app a"
  by (induction rule: reachable.induct) (simp_all add: wf_initial wf_step)


lemma at_most_one_wf:
  assumes "wf_app a"
  shows "at_most_one_selected a"
  unfolding at_most_one_selected_def
proof (intro ballI impI)
  fix x y assume h: "x \<in> selectable a" "y \<in> selectable a" "isSelected a x \<and> isSelected a y"
  from assms have s: "\<forall>x \<in> selectable a. isSelected a x \<longrightarrow> selectedObject a = Some x"
    by (simp add: wf_app_def)
  from s h(1,3) have "selectedObject a = Some x" by blast
  moreover from s h(2,3) have "selectedObject a = Some y" by blast
  ultimately show "x = y" by simp
qed

text \<open>
  C2: in every state the application reaches, at most one object across the placed objects
  and the cameras reports \<^verbatim>\<open>isSelected\<close>; and this still holds after \<^verbatim>\<open>selectObject\<close>,
  \<^verbatim>\<open>deselectAll\<close> and \<^verbatim>\<open>deleteSelectedObject\<close>, also when the deselection inside them throws.
\<close>

theorem at_most_one_selected_reachable:
  assumes "reachable a"
  shows "at_most_one_selected a \<and>
         at_most_one_selected (snd (selectObject obj render_fails a)) \<and>
         at_most_one_selected (snd (deselectAll a)) \<and>
         at_most_one_selected (deleteSelectedObject a)"
  using reachable_wf[OF assms]
  by (simp add: at_most_one_wf wf_selectObject wf_deselectAll wf_deleteSelectedObject)

text \<open>
  C1 (as the code has it): in every state the application reaches, a call of \<^verbatim>\<open>capture\<close>
  and a preview render whose render and encode steps complete leave the state, and so the
  visibility of every camera helper, every camera proxy mesh and the transform gizmo, as it
  was before the call; a failure to create the renderer happens before anything is hidden.
  When the render or the encode step of \<^verbatim>\<open>capture\<close> throws, or the render of a shown
  preview does, the exception leaves the function before the restoring statements: the
  gizmo and the helper and proxy mesh of every camera stay hidden.
\<close>

theorem capture_restores_when_render_succeeds:
  assumes "reachable a"
  shows "capture None a = (Returned, a) \<and>
         renderCameraPreview False a = (Returned, a) \<and>
         capture (Some CreateRenderer) a = (Thrown RenderError, a) \<and>
         (fails_at = Some Render \<or> fails_at = Some Encode \<longrightarrow>
            fst (capture fails_at a) = Thrown RenderError \<and>
            \<not> transformControls_visible (snd (capture fails_at a)) \<and>
            (\<forall>r \<in> set (map snd (cinemaCameras a)).
               \<not> helper_visible (cameras (snd (capture fails_at a)) r) \<and>
               \<not> mesh_visible (cameras (snd (capture fails_at a)) r))) \<and>
         (cameraPreviewRenderer a \<and>
          (pinnedCamera a = Some p \<or> pinnedCamera a = None \<and> selectedObject a = Some (CamRef p)) \<longrightarrow>
            fst (renderCameraPreview True a) = Thrown RenderError \<and>
            \<not> transformControls_visible (snd (renderCameraPreview True a)) \<and>
            (\<forall>r \<in> set (map snd (cinemaCameras a)).
               \<not> helper_visible (cameras (snd (renderCameraPreview True a)) r) \<and>
               \<not> mesh_visible (cameras (snd (renderCameraPreview True a)) r)))"
proof -
  have d: "distinct (map snd (cinemaCameras a))"
    using reachable_wf[OF assms] by (simp add: wf_app_def)
  note hr = hide_then_restore[OF d]
  have c1: "capture None a = (Returned, a)"
    using hr by (simp add: capture_def case_prod_beta)
  have c2: "renderCameraPreview False a = (Returned, a)"
    using hr by (simp add: renderCameraPreview_def case_prod_beta Let_def
                      split: option.splits sel_ref.splits)
  have c3: "capture (Some CreateRenderer) a = (Thrown RenderError, a)"
    by (simp add: capture_def)
  have c4: "fails_at = Some Render \<or> fails_at = Some Encode \<longrightarrow>
            fst (capture fails_at a) = Thrown RenderError \<and>
            \<not> transformControls_visible (snd (capture fails_at a)) \<and>
            (\<forall>r \<in> set (map snd (cinemaCameras a)).
               \<not> helper_visible (cameras (snd (capture fails_at a)) r) \<and>
               \<not> mesh_visible (cameras (snd (capture fails_at a)) r))"
  proof
    assume "fails_at = Some Render \<or> fails_at = Some Encode"
    then have "capture fails_at a = (Thrown RenderError, snd (hideCameraVisualsForCapture a))"
      by (auto simp: capture_def case_prod_beta)
    then show "fst (capture fails_at a) = Thrown RenderError \<and>
            \<not> transformControls_visible (snd (capture fails_at a)) \<and>
            (\<forall>r \<in> set (map snd (cinemaCameras a)).
               \<not> helper_visible (cameras (snd (capture fails_at a)) r) \<and>
               \<not> mesh_visible (cameras (snd (capture fails_at a)) r))"
      by (simp add: hide_effect hidden_def)
  qed
  have c5: "cameraPreviewRenderer a \<and>
          (pinnedCamera a = Some p \<or> pinnedCamera a = None \<and> selectedObject a = Some (CamRef p)) \<longrightarrow>
            fst (renderCameraPreview True a) = Thrown RenderError \<and>
            \<not> transformControls_visible (snd (renderCameraPreview True a)) \<and>
            (\<forall>r \<in> set (map snd (cinemaCameras a)).
               \<not> helper_visible (cameras (snd (renderCameraPreview True a)) r) \<and>
               \<not> mesh_visible (cameras (snd (renderCameraPreview True a)) r))"
  proof
    assume "cameraPreviewRenderer a \<and>
          (pinnedCamera a = Some p \<or> pinnedCamera a = None \<and> selectedObject a = Some (CamRef p))"
    then have "renderCameraPreview True a = (Thrown RenderError, snd (hideCameraVisualsForCapture a))"
      by (auto simp: renderCameraPreview_def case_prod_beta)
    then show "fst (renderCameraPreview True a) = Thrown RenderError \<and>
            \<not> transformControls_visible (snd (renderCameraPreview True a)) \<and>
            (\<forall>r \<in> set (map snd (cinemaCameras a)).
               \<not> helper_visible (cameras (snd (renderCameraPreview True a)) r) \<and>
               \<not> mesh_visible (cameras (snd (renderCameraPreview True a)) r))"
      by (simp add: hide_effect hidden_def)
  qed
  from c1 c2 c3 c4 c5 show ?thesis by blast
qed

lemma ex_app_camera_added:
  "cinemaCameras (createCinemaCamera ''k1'' ex_app) = [(''k1'', 0)]"
  "selectedObject (createCinemaCamera ''k1'' ex_app) = None"
  "sceneObjects (createCinemaCamera ''k1'' ex_app) = []"
  "pinnedCamera (createCinemaCamera ''k1'' ex_app) = None"
  "cam_isSelected (cameras (createCinemaCamera ''k1'' ex_app) 0) = False"
  "mesh_visible (cameras (createCinemaCamera ''k1'' ex_app) 0) = True"
  by (simp_all add: createCinemaCamera_def Let_def map_set_def ex_app_fields
        new_CinemaCamera_def updateCameraSettings_def)

lemma ex_app_camera_reachable: "reachable ex_app_camera"
proof -
  have "reachable ex_app" unfolding ex_app_def by (rule reachable_init)
  then have "reachable (step (AddCamera ''k1'') ex_app)"
    by (rule reachable_step) simp
  then show ?thesis unfolding ex_app_camera_def
    by (rule reachable_step) (simp add: ex_app_camera_added)
qed

lemma ex_app_camera_fields:
  "cinemaCameras ex_app_camera = [(''k1'', 0)]"
  "selectedObject ex_app_camera = Some (CamRef 0)"
  "transformControls_visible ex_app_camera = True"
  "helper_visible (cameras ex_app_camera 0) = True"
  "mesh_visible (cameras ex_app_camera 0) = True"
  "cam_isSelected (cameras ex_app_camera 0) = True"
  "cameraPreviewRenderer ex_app_camera = True"
  "pinnedCamera ex_app_camera = None"
  by (simp_all add: ex_app_camera_def selectObject_def ex_app_camera_added Let_def
        entity_select_def CinemaCamera_select_def showCameraPreview_def
        renderCameraPreview_def hideCameraVisualsForCapture_def
        restoreCameraVisualsAfterCapture_def hide_step_def restore_step_def
        transform_target_def enumerate_eq_zip)

text \<open>With one camera in the scene, selected.\<close>

theorem capture_restores_when_render_succeeds_witness:
  "reachable ex_app_camera \<and>
   capture None ex_app_camera = (Returned, ex_app_camera) \<and>
   renderCameraPreview False ex_app_camera = (Returned, ex_app_camera) \<and>
   fst (capture (Some Render) ex_app_camera) = Thrown RenderError \<and>
   \<not> transformControls_visible (snd (capture (Some Render) ex_app_camera)) \<and>
   \<not> helper_visible (cameras (snd (capture (Some Render) ex_app_camera)) 0) \<and>
   \<not> mesh_visible (cameras (snd (capture (Some Render) ex_app_camera)) 0) \<and>
   fst (renderCameraPreview True ex_app_camera) = Thrown RenderError \<and>
   \<not> transformControls_visible (snd (renderCameraPreview True ex_app_camera)) \<and>
   \<not> helper_visible (cameras (snd (renderCameraPreview True ex_app_camera)) 0) \<and>
   \<not> mesh_visible (cameras (snd (renderCameraPreview True ex_app_camera)) 0)"
  using capture_restores_when_render_succeeds[OF ex_app_camera_reachable, of "Some Render" 0]
  by (simp add: ex_app_camera_reachable ex_app_camera_fields)

text \<open>With one camera in the scene, selected: its helper, its proxy mesh and the gizmo are
  visible before the capture key is pressed and invisible after a capture whose render
  step throws.\<close>

theorem failed_render_leaves_hidden_counterexample:
  "selectedObject ex_app_camera = Some (CamRef 0) \<and>
   transformControls_visible ex_app_camera \<and>
   helper_visible (cameras ex_app_camera 0) \<and>
   mesh_visible (cameras ex_app_camera 0) \<and>
   fst (capture (Some Render) ex_app_camera) = Thrown RenderError \<and>
   \<not> transformControls_visible (step (CaptureKey (Some Render)) ex_app_camera) \<and>
   \<not> helper_visible (cameras (step (CaptureKey (Some Render)) ex_app_camera) 0) \<and>
   \<not> mesh_visible (cameras (step (CaptureKey (Some Render)) ex_app_camera) 0)"
  by (simp add: ex_app_camera_fields capture_def hideCameraVisualsForCapture_def
        hide_step_def)

lemma ex_app_two_loaded:
  "sceneObjects (createCinemaCamera ''k1'' (loadGLTFModel (Inr ex_prop_shared) ''Chair'' ''k3'' ex_app)) = [(''k3'', 0)]"
  "cinemaCameras (createCinemaCamera ''k1'' (loadGLTFModel (Inr ex_prop_shared) ''Chair'' ''k3'' ex_app)) = [(''k1'', 0)]"
  "selectedObject (createCinemaCamera ''k1'' (loadGLTFModel (Inr ex_prop_shared) ''Chair'' ''k3'' ex_app)) = None"
  "pinnedCamera (createCinemaCamera ''k1'' (loadGLTFModel (Inr ex_prop_shared) ''Chair'' ''k3'' ex_app)) = None"
  "so_isSelected (scene_objs (createCinemaCamera ''k1'' (loadGLTFModel (Inr ex_prop_shared) ''Chair'' ''k3'' ex_app)) 0) = False"
  "cam_isSelected (cameras (createCinemaCamera ''k1'' (loadGLTFModel (Inr ex_prop_shared) ''Chair'' ''k3'' ex_app)) 0) = False"
  by (simp_all add: createCinemaCamera_def loadGLTFModel_def Let_def map_set_def ex_app_fields
        new_CinemaCamera_def updateCameraSettings_def new_SceneObject_def)

lemma ex_app_two_clicked:
  "sceneObjects (snd (selectObject (CamRef 0) False (createCinemaCamera ''k1'' (loadGLTFModel (Inr ex_prop_shared) ''Chair'' ''k3'' ex_app)))) = [(''k3'', 0)]"
  "cinemaCameras (snd (selectObject (CamRef 0) False (createCinemaCamera ''k1'' (loadGLTFModel (Inr ex_prop_shared) ''Chair'' ''k3'' ex_app)))) = [(''k1'', 0)]"
  "selectedObject (snd (selectObject (CamRef 0) False (createCinemaCamera ''k1'' (loadGLTFModel (Inr ex_prop_shared) ''Chair'' ''k3'' ex_app)))) = Some (CamRef 0)"
  "so_isSelected (scene_objs (snd (selectObject (CamRef 0) False (createCinemaCamera ''k1'' (loadGLTFModel (Inr ex_prop_shared) ''Chair'' ''k3'' ex_app)))) 0) = False"
  "cam_isSelected (cameras (snd (selectObject (CamRef 0) False (createCinemaCamera ''k1'' (loadGLTFModel (Inr ex_prop_shared) ''Chair'' ''k3'' ex_app)))) 0) = True"
  by (simp_all add: selectObject_def ex_app_two_loaded Let_def
        entity_select_def CinemaCamera_select_def showCameraPreview_def
        renderCameraPreview_def hideCameraVisualsForCapture_def
        restoreCameraVisualsAfterCapture_def hide_step_def restore_step_def
        transform_target_def enumerate_eq_zip)

lemma ex_app_two_reachable: "reachable ex_app_two"
proof -
  have "reachable ex_app" unfolding ex_app_def by (rule reachable_init)
  then have "reachable (step (ModelLoad (Inr ex_prop_shared) ''Chair'' ''k3'') ex_app)"
    by (rule reachable_step) simp
  then have "reachable (step (AddCamera ''k1'')
                 (step (ModelLoad (Inr ex_prop_shared) ''Chair'' ''k3'') ex_app))"
    by (rule reachable_step) simp
  then have r: "reachable (step (Click (Some (CamRef 0)) False) (step (AddCamera ''k1'')
                 (step (ModelLoad (Inr ex_prop_shared) ''Chair'' ''k3'') ex_app)))"
    by (rule reachable_step) (simp add: ex_app_two_loaded)
  then show ?thesis unfolding ex_app_two_def
    by (rule reachable_step) (simp add: ex_app_two_clicked)
qed

lemma ex_app_two_fields:
  "sceneObjects ex_app_two = [(''k3'', 0)]"
  "cinemaCameras ex_app_two = [(''k1'', 0)]"
  "selectedObject ex_app_two = Some (ObjRef 0)"
  "so_isSelected (scene_objs ex_app_two 0) = True"
  "cam_isSelected (cameras ex_app_two 0) = False"
  by (simp_all add: ex_app_two_def selectObject_def[of "ObjRef 0"] ex_app_two_clicked Let_def
        entity_select_def SceneObject_select_def transform_target_def
        entity_deselect_def CinemaCamera_deselect_def)

text \<open>With a chair and a camera in the scene, the camera clicked and then the chair: the
  chair is selected and the camera is not.\<close>

theorem at_most_one_selected_reachable_witness:
  "reachable ex_app_two \<and>
   selectable ex_app_two = {ObjRef 0, CamRef 0} \<and>
   isSelected ex_app_two (ObjRef 0) \<and>
   \<not> isSelected ex_app_two (CamRef 0) \<and>
   at_most_one_selected ex_app_two \<and>
   at_most_one_selected (snd (selectObject (CamRef 0) False ex_app_two)) \<and>
   at_most_one_selected (snd (deselectAll ex_app_two)) \<and>
   at_most_one_selected (deleteSelectedObject ex_app_two)"
  using at_most_one_selected_reachable[OF ex_app_two_reachable, of "CamRef 0" False]
  by (auto simp: ex_app_two_reachable ex_app_two_fields selectable_def)

end
